theory Spec2Isabelle
  imports Main "HOL-Library.AList"
begin

section \<open>Python values and exceptions\<close>

text \<open>
  A request is whatever \<open>json.loads\<close> gives: the values of JSON, with numbers kept as
  integers. A dict is an association list in insertion order; \<open>map_of\<close> reads a key and
  \<open>AList.update\<close> is Python's \<open>d[k] = v\<close> (in place when the key is there, appended
  otherwise).
\<close>

datatype pyval =
    PNone
  | PBool bool
  | PInt int
  | PStr string
  | PList "pyval list"
  | PDict "(string \<times> pyval) list"

text \<open>
  \<open>Exception c m\<close> is an instance of a subclass \<open>c\<close> of Python's \<open>Exception\<close> whose
  \<open>str\<close> is \<open>m\<close>; \<open>SystemExit\<close> and \<open>KeyboardInterrupt\<close> derive from
  \<open>BaseException\<close> only, so \<open>except Exception\<close> lets them pass. The text of the errors
  the interpreter raises itself is abbreviated.
\<close>

datatype exn =
    Exception string string
  | SystemExit int
  | KeyboardInterrupt

fun is_Exception :: "exn \<Rightarrow> bool" where
  "is_Exception (Exception c m) = True"
| "is_Exception (SystemExit n) = False"
| "is_Exception KeyboardInterrupt = False"

fun exn_str :: "exn \<Rightarrow> string" where
  "exn_str (Exception c m) = m"
| "exn_str (SystemExit n) = ''SystemExit''"
| "exn_str KeyboardInterrupt = ''''"

fun py_truthy :: "pyval \<Rightarrow> bool" where
  "py_truthy PNone = False"
| "py_truthy (PBool b) = b"
| "py_truthy (PInt i) = (i \<noteq> 0)"
| "py_truthy (PStr s) = (s \<noteq> [])"
| "py_truthy (PList xs) = (xs \<noteq> [])"
| "py_truthy (PDict d) = (d \<noteq> [])"

fun startswith :: "string \<Rightarrow> string \<Rightarrow> bool" where
  "startswith [] s = True"
| "startswith (c # cs) [] = False"
| "startswith (c # cs) (d # ds) = (c = d \<and> startswith cs ds)"

fun str_contains :: "string \<Rightarrow> string \<Rightarrow> bool" where
  "str_contains k [] = (k = [])"
| "str_contains k (d # ds) = (startswith k (d # ds) \<or> str_contains k ds)"

text \<open>\<open>k in v\<close> for a string \<open>k\<close>.\<close>

fun py_contains :: "string \<Rightarrow> pyval \<Rightarrow> exn + bool" where
  "py_contains k (PDict d) = Inr (map_of d k \<noteq> None)"
| "py_contains k (PList xs) = Inr (PStr k \<in> set xs)"
| "py_contains k (PStr s) = Inr (str_contains k s)"
| "py_contains k PNone = Inl (Exception ''TypeError'' ''argument is not iterable'')"
| "py_contains k (PBool b) = Inl (Exception ''TypeError'' ''argument is not iterable'')"
| "py_contains k (PInt i) = Inl (Exception ''TypeError'' ''argument is not iterable'')"

text \<open>\<open>v[k]\<close> for a string \<open>k\<close>.\<close>

fun py_getitem :: "pyval \<Rightarrow> string \<Rightarrow> exn + pyval" where
  "py_getitem (PDict d) k =
     (case map_of d k of None \<Rightarrow> Inl (Exception ''KeyError'' k) | Some v \<Rightarrow> Inr v)"
| "py_getitem (PList xs) k = Inl (Exception ''TypeError'' ''indices must be integers'')"
| "py_getitem (PStr s) k = Inl (Exception ''TypeError'' ''indices must be integers'')"
| "py_getitem PNone k = Inl (Exception ''TypeError'' ''object is not subscriptable'')"
| "py_getitem (PBool b) k = Inl (Exception ''TypeError'' ''object is not subscriptable'')"
| "py_getitem (PInt i) k = Inl (Exception ''TypeError'' ''object is not subscriptable'')"

text \<open>\<open>v.get(k, None)\<close>: only a dict has the method.\<close>

fun py_get :: "pyval \<Rightarrow> string \<Rightarrow> exn + pyval" where
  "py_get (PDict d) k = Inr (case map_of d k of None \<Rightarrow> PNone | Some v \<Rightarrow> v)"
| "py_get (PList xs) k = Inl (Exception ''AttributeError'' ''get'')"
| "py_get (PStr s) k = Inl (Exception ''AttributeError'' ''get'')"
| "py_get PNone k = Inl (Exception ''AttributeError'' ''get'')"
| "py_get (PBool b) k = Inl (Exception ''AttributeError'' ''get'')"
| "py_get (PInt i) k = Inl (Exception ''AttributeError'' ''get'')"

text \<open>\<open>v[k] = x\<close> for a string \<open>k\<close>; the result is the object after the assignment.\<close>

fun py_setitem :: "pyval \<Rightarrow> string \<Rightarrow> pyval \<Rightarrow> exn + pyval" where
  "py_setitem (PDict d) k x = Inr (PDict (AList.update k x d))"
| "py_setitem (PList xs) k x = Inl (Exception ''TypeError'' ''indices must be integers'')"
| "py_setitem (PStr s) k x = Inl (Exception ''TypeError'' ''item assignment'')"
| "py_setitem PNone k x = Inl (Exception ''TypeError'' ''item assignment'')"
| "py_setitem (PBool b) k x = Inl (Exception ''TypeError'' ''item assignment'')"
| "py_setitem (PInt i) k x = Inl (Exception ''TypeError'' ''item assignment'')"

text \<open>The test every handler repeats: \<open>k not in request or request[k] is None\<close>.\<close>

definition missing :: "pyval \<Rightarrow> string \<Rightarrow> exn + bool" where
  "missing request k =
     (case py_contains k request of
        Inl e \<Rightarrow> Inl e
      | Inr False \<Rightarrow> Inr True
      | Inr True \<Rightarrow>
          (case py_getitem request k of Inl e \<Rightarrow> Inl e | Inr v \<Rightarrow> Inr (v = PNone)))"

section \<open>Configuration, records of the transport, collaborators\<close>

record TopicConfigProperties =
  name :: "string option"

record request_queue_config =
  topic :: TopicConfigProperties
  group_id :: "string option"
  failed_topic :: TopicConfigProperties

record messaging_config =
  connection_address :: "string option"

text \<open>
  The key of a poll result and one polled record (kafka's \<open>TopicPartition\<close> and
  \<open>ConsumerRecord\<close>); the fields carry a prefix because \<open>topic\<close> names a field of the
  queue configuration already and \<open>value\<close> is a keyword.
\<close>

record TopicPartition =
  tp_topic :: string
  tp_partition :: int

record ConsumerRecord =
  cr_value :: string
  cr_offset :: int

datatype Message = Message string

datatype Envelope = Envelope "string option" Message

text \<open>
  The collaborators a handler is constructed with live outside this module. Each is a
  function of its arguments that returns or raises:
  \<^item> \<open>poll timeout_ms max_records\<close> is \<open>requests_consumer.poll(...).items()\<close>;
  \<^item> \<open>commit\<close> is \<open>None\<close> when \<open>requests_consumer.commit()\<close> returns;
  \<^item> \<open>json_read\<close> is \<open>JsonContent.read(value.decode('utf-8')).dict_val\<close> and
    \<open>json_get r\<close> is \<open>JsonContent(r).get()\<close>;
  \<^item> \<open>post envelope key\<close> is \<open>postal_service.post\<close>, with \<open>None\<close> for a call without
    \<open>key\<close>, and the result \<open>None\<close> when it returns;
  \<^item> \<open>PropValueMap\<close> builds the property container from a value;
  \<^item> \<open>build_tree\<close> is the script file manager's method;
  \<^item> \<open>uuid4 n\<close> is the text of the \<open>n\<close>-th identifier \<open>uuid.uuid4()\<close> hands out;
  \<^item> the two request handlers get the request dict by reference: they return or raise,
    and leave the dict in the state given second.
\<close>

record ports =
  poll :: "nat \<Rightarrow> nat \<Rightarrow> exn + (TopicPartition \<times> ConsumerRecord list) list"
  commit :: "exn option"
  json_read :: "string \<Rightarrow> exn + pyval"
  json_get :: "pyval \<Rightarrow> exn + string"
  post :: "Envelope \<Rightarrow> pyval option \<Rightarrow> exn option"
  PropValueMap :: "pyval \<Rightarrow> exn + pyval"
  build_tree :: "string \<Rightarrow> pyval \<Rightarrow> exn + pyval"
  uuid4 :: "nat \<Rightarrow> string"
  infrastructure_request_handler :: "pyval \<Rightarrow> (exn + pyval) \<times> pyval"
  lifecycle_request_handler :: "pyval \<Rightarrow> (exn + pyval) \<times> pyval"

section \<open>Observable effects\<close>

datatype level = DEBUG | WARNING | ERROR

text \<open>A log call: level, the format string as written in the source, its arguments.\<close>

datatype log_entry = Log level string "pyval list"

text \<open>
  What a run leaves behind: the log, the calls of \<open>postal_service.post\<close> in order, the
  number of calls of \<open>commit()\<close>, the requests handed to a request handler, the calls
  of \<open>build_tree\<close>, and how many identifiers \<open>uuid4\<close> has handed out.
\<close>

record world =
  logged :: "log_entry list"
  posted :: "(Envelope \<times> pyval option) list"
  commit_calls :: nat
  delegated :: "pyval list"
  built :: "(string \<times> pyval) list"
  uuid_count :: nat

definition emit :: "level \<Rightarrow> string \<Rightarrow> pyval list \<Rightarrow> world \<Rightarrow> world" where
  "emit l template args w = w\<lparr>logged := logged w @ [Log l template args]\<rparr>"

fun opt_str :: "string option \<Rightarrow> pyval" where
  "opt_str None = PNone"
| "opt_str (Some s) = PStr s"

section \<open>KafkaRequestQueueHandler\<close>

datatype handler_class =
    KafkaRequestQueueHandler
  | KafkaInfrastructureRequestQueueHandler
  | KafkaLifecycleRequestQueueHandler

definition handle_failed_request ::
  "request_queue_config \<Rightarrow> ports \<Rightarrow> pyval \<Rightarrow> world \<Rightarrow> (exn + pyval) \<times> world" where
  "handle_failed_request cfg P request w =
     (case py_get request ''request_id'' of
        Inl e \<Rightarrow> (Inl e, w)
      | Inr request_id \<Rightarrow>
          (case json_get P request of
             Inl e \<Rightarrow> (Inl e, w)
           | Inr content \<Rightarrow>
               (let envelope = Envelope (name (failed_topic cfg)) (Message content);
                    key = (if request_id \<noteq> PNone then Some request_id else None);
                    w' = w\<lparr>posted := posted w @ [(envelope, key)]\<rparr>
                in case post P envelope key of
                     Some e \<Rightarrow> (Inl e, w')
                   | None \<Rightarrow> (Inr PNone, w'))))"

text \<open>
  A step of a \<open>handle_request\<close> body that returns or raises without touching the
  request or the world; the result of \<open>handle_request\<close> is the outcome, the request dict
  as the call leaves it, and the world.
\<close>

type_synonym hres = "(exn + pyval) \<times> pyval \<times> world"

definition attempt :: "exn + 'a \<Rightarrow> pyval \<Rightarrow> world \<Rightarrow> ('a \<Rightarrow> hres) \<Rightarrow> hres" where
  "attempt r request w k = (case r of Inl e \<Rightarrow> (Inl e, request, w) | Inr x \<Rightarrow> k x)"

text \<open>The body of each of the six \<open>if\<close> blocks: warn, forward, \<open>return False\<close>.\<close>

definition discard ::
  "request_queue_config \<Rightarrow> ports \<Rightarrow> string \<Rightarrow> pyval \<Rightarrow> pyval \<Rightarrow> pyval \<Rightarrow> world \<Rightarrow> hres" where
  "discard cfg P template partition' offset request w =
     (case handle_failed_request cfg P request (emit WARNING template [partition', offset] w) of
        (Inl e, w') \<Rightarrow> (Inl e, request, w')
      | (Inr u, w') \<Rightarrow> (Inr (PBool False), request, w'))"

definition if_missing ::
  "request_queue_config \<Rightarrow> ports \<Rightarrow> string \<Rightarrow> string \<Rightarrow> pyval \<Rightarrow> pyval \<Rightarrow> pyval \<Rightarrow> world
     \<Rightarrow> hres \<Rightarrow> hres" where
  "if_missing cfg P k template partition' offset request w continue =
     (case missing request k of
        Inl e \<Rightarrow> (Inl e, request, w)
      | Inr True \<Rightarrow> discard cfg P template partition' offset request w
      | Inr False \<Rightarrow> continue)"

text \<open>
  \<open>request['properties'] = PropValueMap(request['properties'])\<close> and the same for
  \<open>system_properties\<close>. A step that raises leaves the dict as the steps before made it.
\<close>

definition normalise :: "ports \<Rightarrow> string \<Rightarrow> pyval \<Rightarrow> world \<Rightarrow> (pyval \<Rightarrow> hres) \<Rightarrow> hres" where
  "normalise P k request w continue =
     attempt (py_getitem request k) request w (\<lambda>v.
     attempt (PropValueMap P v) request w (\<lambda>m.
     attempt (py_setitem request k m) request w continue))"

subsection \<open>KafkaInfrastructureRequestQueueHandler.handle_request\<close>

definition infrastructure_try :: "request_queue_config \<Rightarrow> ports \<Rightarrow> pyval \<Rightarrow> world \<Rightarrow> hres" where
  "infrastructure_try cfg P request w =
     attempt (py_get request ''partition'') request w (\<lambda>partition'.
     attempt (py_get request ''offset'') request w (\<lambda>offset.
     if_missing cfg P ''request_id''
       ''Infrastructure request for partition {0} offset {1} is missing request_id. This request has been discarded''
       partition' offset request w (
     if_missing cfg P ''template''
       ''Infrastructure request for partition {0} offset {1} is missing template. This request has been discarded''
       partition' offset request w (
     if_missing cfg P ''template_type''
       ''Infrastructure request for partition {0} offset {1} is missing template_type. This request has been discarded''
       partition' offset request w (
     if_missing cfg P ''properties''
       ''Infrastructure request for partition {0} offset {1} is missing properties. This request has been discarded''
       partition' offset request w (
     if_missing cfg P ''system_properties''
       ''Infrastructure request for partition {0} offset {1} is missing system_properties. This request has been discarded''
       partition' offset request w (
     if_missing cfg P ''deployment_location''
       ''Infrastructure request for partition {0} offset {1} is missing deployment_location. This request has been discarded''
       partition' offset request w (
     normalise P ''properties'' request w (\<lambda>r1.
     normalise P ''system_properties'' r1 w (\<lambda>r2.
     (case infrastructure_request_handler P r2 of
        (res, r3) \<Rightarrow> (res, r3, w\<lparr>delegated := delegated w @ [r2]\<rparr>))))))))))))"

text \<open>
  The \<open>except Exception\<close> clause shared by both handlers: read the request id from the
  dict as it is now, log, raise again. \<open>label\<close> is the word the two messages differ in.
\<close>

definition reraise_logged :: "string \<Rightarrow> request_queue_config \<Rightarrow> hres \<Rightarrow> hres" where
  "reraise_logged template cfg r =
     (case r of
        (Inr v, request, w) \<Rightarrow> (Inr v, request, w)
      | (Inl e, request, w) \<Rightarrow>
          (if is_Exception e then
             (case py_get request ''request_id'' of
                Inl e' \<Rightarrow> (Inl e', request, w)
              | Inr request_id \<Rightarrow>
                  (Inl e, request,
                   emit ERROR template
                     [request_id, opt_str (name (topic cfg)), PStr (exn_str e)] w))
           else (Inl e, request, w)))"

definition infrastructure_handle_request ::
  "request_queue_config \<Rightarrow> ports \<Rightarrow> pyval \<Rightarrow> world \<Rightarrow> hres" where
  "infrastructure_handle_request cfg P request w =
     reraise_logged ''Caught exception processing infrastructure request {0} for topic {1}: {2}''
       cfg (infrastructure_try cfg P request w)"

subsection \<open>KafkaLifecycleRequestQueueHandler.handle_request\<close>

definition lifecycle_try :: "request_queue_config \<Rightarrow> ports \<Rightarrow> pyval \<Rightarrow> world \<Rightarrow> hres" where
  "lifecycle_try cfg P request w =
     attempt (py_get request ''partition'') request w (\<lambda>partition'.
     attempt (py_get request ''offset'') request w (\<lambda>offset.
     if_missing cfg P ''request_id''
       ''Lifecycle request for partition {0} offset {1} is missing request_id. This request has been discarded''
       partition' offset request w (
     if_missing cfg P ''lifecycle_name''
       ''Lifecycle request for partition {0} offset {1} is missing lifecycle_name. This request has been discarded''
       partition' offset request w (
     if_missing cfg P ''lifecycle_scripts''
       ''Lifecycle request for partition {0} offset {1} is missing lifecycle_scripts. This request has been discarded''
       partition' offset request w (
     if_missing cfg P ''system_properties''
       ''Lifecycle request for partition {0} offset {1} is missing system_properties. This request has been discarded''
       partition' offset request w (
     if_missing cfg P ''properties''
       ''Lifecycle request for partition {0} offset {1} is missing properties. This request has been discarded''
       partition' offset request w (
     if_missing cfg P ''deployment_location''
       ''Lifecycle request for partition {0} offset {1} is missing deployment_location. This request has been discarded''
       partition' offset request w (
     (let file_name = uuid4 P (uuid_count w);
          w1 = w\<lparr>uuid_count := Suc (uuid_count w)\<rparr>
      in attempt (py_getitem request ''lifecycle_scripts'') request w1 (\<lambda>scripts.
         (let w2 = w1\<lparr>built := built w1 @ [(file_name, scripts)]\<rparr>
          in attempt (build_tree P file_name scripts) request w2 (\<lambda>path.
             attempt (py_setitem request ''lifecycle_path'' path) request w2 (\<lambda>r0.
             normalise P ''properties'' r0 w2 (\<lambda>r1.
             normalise P ''system_properties'' r1 w2 (\<lambda>r2.
             (case lifecycle_request_handler P r2 of
                (res, r3) \<Rightarrow> (res, r3, w2\<lparr>delegated := delegated w2 @ [r2]\<rparr>)))))))))))))))))"

definition lifecycle_handle_request ::
  "request_queue_config \<Rightarrow> ports \<Rightarrow> pyval \<Rightarrow> world \<Rightarrow> hres" where
  "lifecycle_handle_request cfg P request w =
     reraise_logged ''Caught exception processing lifecycle request {0} for topic {1}: {2}''
       cfg (lifecycle_try cfg P request w)"

subsection \<open>The hook and \<open>process_request\<close>\<close>

text \<open>The base class's hook is \<open>pass\<close>: it returns \<open>None\<close>.\<close>

fun handle_request ::
  "handler_class \<Rightarrow> request_queue_config \<Rightarrow> ports \<Rightarrow> pyval \<Rightarrow> world \<Rightarrow> hres" where
  "handle_request KafkaRequestQueueHandler cfg P request w = (Inr PNone, request, w)"
| "handle_request KafkaInfrastructureRequestQueueHandler cfg P request w =
     infrastructure_handle_request cfg P request w"
| "handle_request KafkaLifecycleRequestQueueHandler cfg P request w =
     lifecycle_handle_request cfg P request w"

type_synonym pres = "(exn + pyval) \<times> world"

definition step :: "exn + 'a \<Rightarrow> world \<Rightarrow> ('a \<Rightarrow> pres) \<Rightarrow> pres" where
  "step r w k = (case r of Inl e \<Rightarrow> (Inl e, w) | Inr x \<Rightarrow> k x)"

text \<open>
  \<open>self.handle_failed_request(request); return False\<close>, as the two failing branches
  of \<open>process_request\<close> end.
\<close>

definition forward_and_return_False ::
  "request_queue_config \<Rightarrow> ports \<Rightarrow> pyval \<Rightarrow> world \<Rightarrow> pres" where
  "forward_and_return_False cfg P request w =
     (case handle_failed_request cfg P request w of
        (Inl e, w') \<Rightarrow> (Inl e, w')
      | (Inr u, w') \<Rightarrow> (Inr (PBool False), w'))"

text \<open>The body of \<open>if len(messages) > 0\<close>, for \<open>message = messages[0]\<close>.\<close>

definition process_message ::
  "handler_class \<Rightarrow> request_queue_config \<Rightarrow> ports \<Rightarrow> TopicPartition \<Rightarrow> ConsumerRecord
     \<Rightarrow> world \<Rightarrow> pres" where
  "process_message c cfg P topic_partition message w =
     step (json_read P (cr_value message)) w (\<lambda>request.
     (let w1 = emit DEBUG ''Reading topic {0} partition {1} group {2}''
                 [PStr (tp_topic topic_partition), PInt (tp_partition topic_partition),
                  opt_str (group_id cfg)] w
      in step (missing request ''request_id'') w1 (\<lambda>m.
         if m then
           forward_and_return_False cfg P request
             (emit WARNING
                ''Request for topic {0} partition {1} offset {2} is missing request_id. This request has been discarded.''
                [PStr (tp_topic topic_partition), PInt (tp_partition topic_partition),
                 PInt (cr_offset message)] w1)
         else
           step (py_get request ''request_id'') w1 (\<lambda>request_id.
           step (py_setitem request ''partition'' (PInt (tp_partition topic_partition))) w1 (\<lambda>ra.
           step (py_setitem ra ''offset'' (PInt (cr_offset message))) w1 (\<lambda>rb.
           (case handle_request c cfg P rb w1 of
              (Inl e, rc, w2) \<Rightarrow> (Inl e, w2)
            | (Inr v, rc, w2) \<Rightarrow>
                (if py_truthy v then
                   (let w3 = emit DEBUG
                               ''Committing request with id {0} on topic {1} for partition {2} offset {3}''
                               [request_id, PStr (tp_topic topic_partition),
                                PInt (tp_partition topic_partition), PInt (cr_offset message)] w2;
                        w4 = w3\<lparr>commit_calls := Suc (commit_calls w3)\<rparr>
                    in case commit P of
                         Some e \<Rightarrow> (Inl e, w4)
                       | None \<Rightarrow> (Inr (PBool True), w4))
                 else
                   forward_and_return_False cfg P rc
                     (emit WARNING ''Adding failed request with id {0} to failed topic''
                        [request_id] w2)))))))))"

text \<open>
  The \<open>for\<close> loop over the items of the poll result: the first entry with a message ends
  the call; when the loop runs out, the function ends without a \<open>return\<close>, which in
  Python returns \<open>None\<close>.
\<close>

fun process_items ::
  "handler_class \<Rightarrow> request_queue_config \<Rightarrow> ports \<Rightarrow> (TopicPartition \<times> ConsumerRecord list) list
     \<Rightarrow> world \<Rightarrow> pres" where
  "process_items c cfg P [] w = (Inr PNone, w)"
| "process_items c cfg P ((topic_partition, []) # rest) w = process_items c cfg P rest w"
| "process_items c cfg P ((topic_partition, message # others) # rest) w =
     process_message c cfg P topic_partition message w"

text \<open>
  \<open>except Exception\<close>: log and \<open>sys.exit(1)\<close>, which raises \<open>SystemExit(1)\<close>.
\<close>

definition process_request :: "handler_class \<Rightarrow> request_queue_config \<Rightarrow> ports \<Rightarrow> world \<Rightarrow> pres" where
  "process_request c cfg P w =
     (case step (poll P 200 1) w (\<lambda>items. process_items c cfg P items w) of
        (Inr v, w') \<Rightarrow> (Inr v, w')
      | (Inl e, w') \<Rightarrow>
          (if is_Exception e then
             (Inl (SystemExit 1),
              emit ERROR ''Lifecycle request queue for topic {0} is closing due to error {1}''
                [opt_str (name (topic cfg)), PStr (exn_str e)] w')
           else (Inl e, w')))"

section \<open>Consumer factory and service construction\<close>

record KafkaConsumerFactory =
  bootstrap_servers :: "string option"
  topic_name :: "string option"
  factory_group_id :: "string option"

definition KafkaConsumerFactory_init ::
  "request_queue_config \<Rightarrow> messaging_config \<Rightarrow> exn + KafkaConsumerFactory" where
  "KafkaConsumerFactory_init rqc mc =
     (if connection_address mc = None \<or> connection_address mc = Some '''' then
        Inl (Exception ''ValueError'' ''messaging_config.connection_address cannot be null'')
      else if name (topic rqc) = None \<or> name (topic rqc) = Some '''' then
        Inl (Exception ''ValueError'' ''request_queue_config.topic.name cannot be null'')
      else if group_id rqc = None \<or> group_id rqc = Some '''' then
        Inl (Exception ''ValueError'' ''request_queue_config.group_id cannot be null'')
      else
        Inr \<lparr>bootstrap_servers = connection_address mc, topic_name = name (topic rqc),
             factory_group_id = group_id rqc\<rparr>)"

text \<open>
  A keyword argument of the service: \<open>None\<close>, the messaging configuration, a
  configuration group (an object whose \<open>request_queue\<close> attribute is the queue
  configuration given), or some other object, known by a label only.
\<close>

datatype kwarg =
    KNone
  | KMessagingConfig messaging_config
  | KConfigGroup request_queue_config
  | KObject string

fun get_connection_address :: "kwarg \<Rightarrow> exn + string option" where
  "get_connection_address (KMessagingConfig mc) = Inr (connection_address mc)"
| "get_connection_address v = Inl (Exception ''AttributeError'' ''connection_address'')"

fun get_request_queue :: "kwarg \<Rightarrow> exn + request_queue_config" where
  "get_request_queue (KConfigGroup rqc) = Inr rqc"
| "get_request_queue v = Inl (Exception ''AttributeError'' ''request_queue'')"

text \<open>\<open>kwargs.get(k)\<close>.\<close>

definition kwargs_get :: "(string \<times> kwarg) list \<Rightarrow> string \<Rightarrow> kwarg" where
  "kwargs_get kwargs k = (case map_of kwargs k of None \<Rightarrow> KNone | Some v \<Rightarrow> v)"

record KafkaRequestQueueService =
  script_file_manager :: kwarg
  service_bootstrap_servers :: "string option"
  infrastructure_request_queue_config :: request_queue_config
  lifecycle_request_queue_config :: request_queue_config
  postal_service :: kwarg
  infrastructure_consumer_factory :: kwarg
  lifecycle_consumer_factory :: kwarg

definition KafkaRequestQueueService_init ::
  "(string \<times> kwarg) list \<Rightarrow> exn + KafkaRequestQueueService" where
  "KafkaRequestQueueService_init kwargs =
     (if map_of kwargs ''messaging_config'' = None then
        Inl (Exception ''ValueError'' ''messaging_config argument not provided'')
      else if map_of kwargs ''infrastructure_config'' = None then
        Inl (Exception ''ValueError'' ''infrastructure_config argument not provided'')
      else if map_of kwargs ''lifecycle_config'' = None then
        Inl (Exception ''ValueError'' ''lifecycle_config argument not provided'')
      else if map_of kwargs ''postal_service'' = None then
        Inl (Exception ''ValueError'' ''postal_service argument not provided'')
      else if map_of kwargs ''script_file_manager'' = None then
        Inl (Exception ''ValueError'' ''script_file_manager argument not provided'')
      else if map_of kwargs ''infrastructure_consumer_factory'' = None then
        Inl (Exception ''ValueError'' ''infrastructure_consumer_factory argument not provided'')
      else if map_of kwargs ''lifecycle_consumer_factory'' = None then
        Inl (Exception ''ValueError'' ''lifecycle_consumer_factory argument not provided'')
      else
        (case get_connection_address (kwargs_get kwargs ''messaging_config'') of
           Inl e \<Rightarrow> Inl e
         | Inr address \<Rightarrow>
             (case get_request_queue (kwargs_get kwargs ''infrastructure_config'') of
                Inl e \<Rightarrow> Inl e
              | Inr infrastructure_queue \<Rightarrow>
                  (case get_request_queue (kwargs_get kwargs ''lifecycle_config'') of
                     Inl e \<Rightarrow> Inl e
                   | Inr lifecycle_queue \<Rightarrow>
                       Inr \<lparr>script_file_manager = kwargs_get kwargs ''script_file_manager'',
                            service_bootstrap_servers = address,
                            infrastructure_request_queue_config = infrastructure_queue,
                            lifecycle_request_queue_config = lifecycle_queue,
                            postal_service = kwargs_get kwargs ''postal_service'',
                            infrastructure_consumer_factory =
                              kwargs_get kwargs ''infrastructure_consumer_factory'',
                            lifecycle_consumer_factory =
                              kwargs_get kwargs ''lifecycle_consumer_factory''\<rparr>))))"

section \<open>Vocabulary of the properties\<close>

text \<open>A field is absent from a request dict when the key is not there or its value is \<open>None\<close>.\<close>

definition absent :: "(string \<times> pyval) list \<Rightarrow> string \<Rightarrow> bool" where
  "absent d k = (case map_of d k of None \<Rightarrow> True | Some v \<Rightarrow> v = PNone)"

text \<open>The first field of a list, in its order, that is absent from a request.\<close>

fun first_missing :: "string list \<Rightarrow> (string \<times> pyval) list \<Rightarrow> string option" where
  "first_missing [] d = None"
| "first_missing (k # ks) d = (if absent d k then Some k else first_missing ks d)"

definition infrastructure_fields :: "string list" where
  "infrastructure_fields =
     [''request_id'', ''template'', ''template_type'', ''properties'', ''system_properties'',
      ''deployment_location'']"

definition lifecycle_fields :: "string list" where
  "lifecycle_fields =
     [''request_id'', ''lifecycle_name'', ''lifecycle_scripts'', ''system_properties'',
      ''properties'', ''deployment_location'']"

fun required_fields :: "handler_class \<Rightarrow> string list" where
  "required_fields KafkaRequestQueueHandler = []"
| "required_fields KafkaInfrastructureRequestQueueHandler = infrastructure_fields"
| "required_fields KafkaLifecycleRequestQueueHandler = lifecycle_fields"

fun label :: "handler_class \<Rightarrow> string" where
  "label KafkaRequestQueueHandler = ''''"
| "label KafkaInfrastructureRequestQueueHandler = ''Infrastructure''"
| "label KafkaLifecycleRequestQueueHandler = ''Lifecycle''"

text \<open>The warning a specialised handler logs for a field: the field's name is in it.\<close>

definition missing_warning :: "string \<Rightarrow> string \<Rightarrow> string" where
  "missing_warning l k =
     l @ '' request for partition {0} offset {1} is missing '' @ k
       @ ''. This request has been discarded''"

text \<open>\<open>d.get(k, None)\<close> on the entries of a dict.\<close>

definition lookup :: "(string \<times> pyval) list \<Rightarrow> string \<Rightarrow> pyval" where
  "lookup d k = (case map_of d k of None \<Rightarrow> PNone | Some v \<Rightarrow> v)"

text \<open>The key a dead-letter publish of a request is expected to carry.\<close>

definition dead_letter_key :: "(string \<times> pyval) list \<Rightarrow> pyval option" where
  "dead_letter_key d = (if absent d ''request_id'' then None else map_of d ''request_id'')"

definition dead_letter ::
  "request_queue_config \<Rightarrow> string \<Rightarrow> (string \<times> pyval) list \<Rightarrow> Envelope \<times> pyval option" where
  "dead_letter cfg content d =
     (Envelope (name (failed_topic cfg)) (Message content), dead_letter_key d)"

text \<open>The polled record of a poll result: the first message of the first entry that has one.\<close>

fun first_record ::
  "(TopicPartition \<times> ConsumerRecord list) list \<Rightarrow> (TopicPartition \<times> ConsumerRecord) option" where
  "first_record [] = None"
| "first_record ((tp, []) # rest) = first_record rest"
| "first_record ((tp, m # ms) # rest) = Some (tp, m)"

text \<open>The entries of a request with the partition and the offset of its record attached.\<close>

definition enrich ::
  "TopicPartition \<Rightarrow> ConsumerRecord \<Rightarrow> (string \<times> pyval) list \<Rightarrow> (string \<times> pyval) list" where
  "enrich tp m d =
     AList.update ''offset'' (PInt (cr_offset m))
       (AList.update ''partition'' (PInt (tp_partition tp)) d)"

definition reading_entry :: "request_queue_config \<Rightarrow> TopicPartition \<Rightarrow> log_entry" where
  "reading_entry cfg tp =
     Log DEBUG ''Reading topic {0} partition {1} group {2}''
       [PStr (tp_topic tp), PInt (tp_partition tp), opt_str (group_id cfg)]"

definition raises_ValueError :: "exn + 'a \<Rightarrow> bool" where
  "raises_ValueError r =
     (case r of Inl (Exception c m) \<Rightarrow> c = ''ValueError'' | Inl e \<Rightarrow> False | Inr x \<Rightarrow> False)"

definition blank :: "string option \<Rightarrow> bool" where
  "blank x = (x = None \<or> x = Some '''')"

definition service_arguments :: "string list" where
  "service_arguments =
     [''messaging_config'', ''infrastructure_config'', ''lifecycle_config'', ''postal_service'',
      ''script_file_manager'', ''infrastructure_consumer_factory'', ''lifecycle_consumer_factory'']"

section \<open>Sample inputs\<close>

definition demo_config :: request_queue_config where
  "demo_config =
     \<lparr>topic = \<lparr>name = Some ''requests''\<rparr>, group_id = Some ''drivers'',
      failed_topic = \<lparr>name = Some ''requests_failed''\<rparr>\<rparr>"

text \<open>A stand-in serialiser: the keys of the dict, each followed by a semicolon.\<close>

definition demo_keys :: "pyval \<Rightarrow> exn + string" where
  "demo_keys r =
     (case r of
        PDict d \<Rightarrow> Inr (concat (map (\<lambda>kv. fst kv @ '';'') d))
      | _ \<Rightarrow> Inl (Exception ''TypeError'' ''not serializable''))"

definition demo_tp :: TopicPartition where
  "demo_tp = \<lparr>tp_topic = ''requests'', tp_partition = 2\<rparr>"

definition demo_record :: ConsumerRecord where
  "demo_record = \<lparr>cr_value = ''body'', cr_offset = 7\<rparr>"

text \<open>
  Collaborators that all succeed: one record is polled, its body deserialises to
  \<open>payload\<close>, and both request handlers end with \<open>outcome\<close>, leaving the dict alone.
\<close>

definition demo_ports :: "pyval \<Rightarrow> exn + pyval \<Rightarrow> ports" where
  "demo_ports payload outcome =
     \<lparr>poll = (\<lambda>timeout_ms max_records. Inr [(demo_tp, [demo_record])]),
      commit = None,
      json_read = (\<lambda>s. Inr payload),
      json_get = demo_keys,
      post = (\<lambda>envelope key. None),
      PropValueMap = (\<lambda>v. Inr v),
      build_tree = (\<lambda>file_name scripts. Inr (PStr (''/scripts/'' @ file_name))),
      uuid4 = (\<lambda>n. replicate (Suc n) CHR ''u''),
      infrastructure_request_handler = (\<lambda>r. (outcome, r)),
      lifecycle_request_handler = (\<lambda>r. (outcome, r))\<rparr>"

definition world0 :: world where
  "world0 =
     \<lparr>logged = [], posted = [], commit_calls = 0, delegated = [], built = [], uuid_count = 0\<rparr>"

text \<open>A world in which one identifier was drawn and one tree built before.\<close>

definition world1 :: world where
  "world1 = world0\<lparr>built := [(''u'', PStr ''older'')], uuid_count := Suc 0\<rparr>"

definition demo_infrastructure :: "(string \<times> pyval) list" where
  "demo_infrastructure =
     [(''request_id'', PStr ''r1''), (''template'', PStr ''t''), (''template_type'', PStr ''TOSCA''),
      (''properties'', PDict []), (''system_properties'', PDict []),
      (''deployment_location'', PDict [])]"

definition demo_lifecycle :: "(string \<times> pyval) list" where
  "demo_lifecycle =
     [(''request_id'', PStr ''r2''), (''lifecycle_name'', PStr ''Install''),
      (''lifecycle_scripts'', PStr ''archive''), (''system_properties'', PDict []),
      (''properties'', PDict []), (''deployment_location'', PDict [])]"

definition demo_no_template :: "(string \<times> pyval) list" where
  "demo_no_template =
     [(''request_id'', PStr ''r3''), (''template_type'', PStr ''TOSCA''), (''properties'', PDict []),
      (''system_properties'', PDict []), (''deployment_location'', PDict [])]"

definition demo_no_scripts :: "(string \<times> pyval) list" where
  "demo_no_scripts =
     [(''request_id'', PStr ''r4''), (''lifecycle_name'', PStr ''Install''),
      (''system_properties'', PDict []), (''properties'', PDict []),
      (''deployment_location'', PDict [])]"

definition demo_no_id :: "(string \<times> pyval) list" where
  "demo_no_id = [(''request_id'', PNone), (''template'', PStr ''t'')]"

definition demo_empty_id :: "(string \<times> pyval) list" where
  "demo_empty_id =
     [(''request_id'', PStr ''''), (''template'', PStr ''t''), (''template_type'', PStr ''TOSCA''),
      (''properties'', PDict []), (''system_properties'', PDict []),
      (''deployment_location'', PDict [])]"

definition demo_messaging :: messaging_config where
  "demo_messaging = \<lparr>connection_address = Some ''kafka:9092''\<rparr>"

definition demo_kwargs :: "(string \<times> kwarg) list" where
  "demo_kwargs =
     [(''messaging_config'', KMessagingConfig \<lparr>connection_address = Some ''''\<rparr>),
      (''infrastructure_config'', KConfigGroup demo_config),
      (''lifecycle_config'', KConfigGroup demo_config),
      (''postal_service'', KNone),
      (''script_file_manager'', KNone),
      (''infrastructure_consumer_factory'', KNone),
      (''lifecycle_consumer_factory'', KNone)]"

text \<open>
  Collaborators with a property container that the serialiser refuses, as
  \<open>json.dumps\<close> refuses an object that is no dict, list, string or number. The
  container made from \<open>v\<close> is written as the list of the class name and \<open>v\<close>.
\<close>

definition demo_container :: "pyval \<Rightarrow> pyval" where
  "demo_container v = PList [PStr ''PropValueMap'', v]"

fun is_container :: "pyval \<Rightarrow> bool" where
  "is_container (PList [PStr c, v]) = (c = ''PropValueMap'')"
| "is_container v = False"

definition demo_dumps :: "pyval \<Rightarrow> exn + string" where
  "demo_dumps r =
     (case r of
        PDict d \<Rightarrow>
          (if list_ex (\<lambda>kv. is_container (snd kv)) d then
             Inl (Exception ''TypeError'' ''Object of type PropValueMap is not JSON serializable'')
           else demo_keys r)
      | _ \<Rightarrow> demo_keys r)"

definition strict_ports :: "pyval \<Rightarrow> exn + pyval \<Rightarrow> ports" where
  "strict_ports payload outcome =
     (demo_ports payload outcome)
       \<lparr>json_get := demo_dumps, PropValueMap := (\<lambda>v. Inr (demo_container v))\<rparr>"

section \<open>More vocabulary\<close>

text \<open>
  The six \<open>if\<close> blocks of a specialised handler as one recursion over its list of
  fields; \<open>infrastructure_try\<close> and \<open>lifecycle_try\<close> are shown below to be instances of it.
\<close>

fun checks ::
  "request_queue_config \<Rightarrow> ports \<Rightarrow> string \<Rightarrow> string list \<Rightarrow> pyval \<Rightarrow> pyval \<Rightarrow> pyval \<Rightarrow> world
     \<Rightarrow> hres \<Rightarrow> hres" where
  "checks cfg P l [] p off request w continue = continue"
| "checks cfg P l (k # ks) p off request w continue =
     if_missing cfg P k (missing_warning l k) p off request w
       (checks cfg P l ks p off request w continue)"

text \<open>
  The poll yields the record \<open>m\<close> of partition \<open>tp\<close>, and its body deserialises to a
  dict with the entries \<open>d\<close>.
\<close>

definition polled ::
  "ports \<Rightarrow> TopicPartition \<Rightarrow> ConsumerRecord \<Rightarrow> (string \<times> pyval) list \<Rightarrow> bool" where
  "polled P tp m d =
     (case poll P 200 1 of
        Inl e \<Rightarrow> False
      | Inr items \<Rightarrow>
          first_record items = Some (tp, m) \<and> json_read P (cr_value m) = Inr (PDict d))"

text \<open>The entries of a request after its two property fields were replaced.\<close>

definition normalised ::
  "pyval \<Rightarrow> pyval \<Rightarrow> (string \<times> pyval) list \<Rightarrow> (string \<times> pyval) list" where
  "normalised pm spm d =
     AList.update ''system_properties'' spm (AList.update ''properties'' pm d)"

text \<open>
  The property fields of a request are \<open>p\<close> and \<open>sp\<close>, and \<open>PropValueMap\<close> turns them
  into \<open>pm\<close> and \<open>spm\<close>.
\<close>

definition normalises ::
  "ports \<Rightarrow> (string \<times> pyval) list \<Rightarrow> pyval \<Rightarrow> pyval \<Rightarrow> bool" where
  "normalises P d pm spm =
     (case (map_of d ''properties'', map_of d ''system_properties'') of
        (Some p, Some sp) \<Rightarrow> PropValueMap P p = Inr pm \<and> PropValueMap P sp = Inr spm
      | _ \<Rightarrow> False)"

definition closing_entry :: "request_queue_config \<Rightarrow> exn \<Rightarrow> log_entry" where
  "closing_entry cfg e =
     Log ERROR ''Lifecycle request queue for topic {0} is closing due to error {1}''
       [opt_str (name (topic cfg)), PStr (exn_str e)]"

section \<open>Requests that are dicts\<close>

lemma missing_dict: "missing (PDict d) k = Inr (absent d k)"
  by (simp add: missing_def absent_def split: option.splits)

lemma py_get_dict: "py_get (PDict d) k = Inr (lookup d k)"
  by (simp add: lookup_def)

lemma handle_failed_request_dict:
  assumes "json_get P (PDict d) = Inr content"
  shows "handle_failed_request cfg P (PDict d) w =
           ((case post P (fst (dead_letter cfg content d)) (dead_letter_key d) of
               None \<Rightarrow> Inr PNone | Some e \<Rightarrow> Inl e),
            w\<lparr>posted := posted w @ [dead_letter cfg content d]\<rparr>)"
  using assms
  by (auto simp: handle_failed_request_def dead_letter_def dead_letter_key_def absent_def Let_def
           split: option.splits)

lemma forward_dict:
  assumes "json_get P (PDict d) = Inr content"
    "post P (Envelope (name (failed_topic cfg)) (Message content)) (dead_letter_key d) = None"
  shows "forward_and_return_False cfg P (PDict d) w =
           (Inr (PBool False), w\<lparr>posted := posted w @ [dead_letter cfg content d]\<rparr>)"
  using assms by (simp add: forward_and_return_False_def handle_failed_request_dict dead_letter_def)

lemma if_missing_dict:
  "if_missing cfg P k template p off (PDict d) w continue =
     (if absent d k then discard cfg P template p off (PDict d) w else continue)"
  by (simp add: if_missing_def missing_dict)

lemma discard_dict:
  assumes "json_get P (PDict d) = Inr content"
    "post P (Envelope (name (failed_topic cfg)) (Message content)) (dead_letter_key d) = None"
  shows "discard cfg P template p off (PDict d) w =
     (Inr (PBool False), PDict d,
      w\<lparr>logged := logged w @ [Log WARNING template [p, off]],
        posted := posted w @ [dead_letter cfg content d]\<rparr>)"
  using assms
  by (simp add: discard_def handle_failed_request_dict emit_def dead_letter_def)

lemma checks_dict:
  "checks cfg P l ks p off (PDict d) w continue =
     (case first_missing ks d of
        None \<Rightarrow> continue
      | Some f \<Rightarrow> discard cfg P (missing_warning l f) p off (PDict d) w)"
  by (induction ks) (simp_all add: if_missing_dict)

lemma reraise_logged_return [simp]:
  "reraise_logged template cfg (Inr v, request, w) = (Inr v, request, w)"
  by (simp add: reraise_logged_def)

lemma reraise_logged_dict:
  "is_Exception e \<Longrightarrow>
     reraise_logged template cfg (Inl e, PDict d, w) =
       (Inl e, PDict d,
        w\<lparr>logged := logged w @
             [Log ERROR template
                [lookup d ''request_id'', opt_str (name (topic cfg)), PStr (exn_str e)]]\<rparr>)"
  by (simp add: reraise_logged_def emit_def lookup_def)

lemma normalise_dict:
  "map_of d k = Some v \<Longrightarrow> PropValueMap P v = Inr pm \<Longrightarrow>
     normalise P k (PDict d) w continue = continue (PDict (AList.update k pm d))"
  by (simp add: normalise_def attempt_def)

lemma normalise_both:
  assumes "normalises P d pm spm"
  shows "normalise P ''properties'' (PDict d) w
           (\<lambda>r1. normalise P ''system_properties'' r1 w continue) =
         continue (PDict (normalised pm spm d))"
proof -
  from assms obtain p sp where
    p: "map_of d ''properties'' = Some p" "PropValueMap P p = Inr pm" and
    sp: "map_of d ''system_properties'' = Some sp" "PropValueMap P sp = Inr spm"
    by (auto simp: normalises_def split: option.splits)
  have "map_of (AList.update ''properties'' pm d) ''system_properties'' = Some sp"
    using sp(1) by (simp add: update_conv')
  then show ?thesis
    using p sp(2) by (simp add: normalise_dict normalised_def)
qed

subsection \<open>The two specialised handlers\<close>

lemma infrastructure_try_checks:
  "infrastructure_try cfg P request w =
     attempt (py_get request ''partition'') request w (\<lambda>p.
     attempt (py_get request ''offset'') request w (\<lambda>off.
     checks cfg P ''Infrastructure'' infrastructure_fields p off request w (
     normalise P ''properties'' request w (\<lambda>r1.
     normalise P ''system_properties'' r1 w (\<lambda>r2.
     (case infrastructure_request_handler P r2 of
        (res, r3) \<Rightarrow> (res, r3, w\<lparr>delegated := delegated w @ [r2]\<rparr>)))))))"
  by (simp add: infrastructure_try_def infrastructure_fields_def missing_warning_def)

lemma infrastructure_try_dict:
  "infrastructure_try cfg P (PDict d) w =
     (case first_missing infrastructure_fields d of
        Some f \<Rightarrow>
          discard cfg P (missing_warning ''Infrastructure'' f) (lookup d ''partition'')
            (lookup d ''offset'') (PDict d) w
      | None \<Rightarrow>
          normalise P ''properties'' (PDict d) w (\<lambda>r1.
          normalise P ''system_properties'' r1 w (\<lambda>r2.
          (case infrastructure_request_handler P r2 of
             (res, r3) \<Rightarrow> (res, r3, w\<lparr>delegated := delegated w @ [r2]\<rparr>)))))"
  by (simp add: infrastructure_try_checks checks_dict attempt_def py_get_dict del: py_get.simps)

lemma infrastructure_missing:
  assumes "first_missing infrastructure_fields d = Some f"
    "json_get P (PDict d) = Inr content"
    "post P (Envelope (name (failed_topic cfg)) (Message content)) (dead_letter_key d) = None"
  shows "infrastructure_handle_request cfg P (PDict d) w =
     (Inr (PBool False), PDict d,
      w\<lparr>logged := logged w @ [Log WARNING (missing_warning ''Infrastructure'' f)
                                  [lookup d ''partition'', lookup d ''offset'']],
        posted := posted w @ [dead_letter cfg content d]\<rparr>)"
  by (simp add: infrastructure_handle_request_def infrastructure_try_dict assms(1)
        discard_dict [OF assms(2,3)])

lemma infrastructure_complete:
  assumes "first_missing infrastructure_fields d = None" "normalises P d pm spm"
  shows "infrastructure_try cfg P (PDict d) w =
     (case infrastructure_request_handler P (PDict (normalised pm spm d)) of
        (res, r3) \<Rightarrow>
          (res, r3, w\<lparr>delegated := delegated w @ [PDict (normalised pm spm d)]\<rparr>))"
  by (simp add: infrastructure_try_dict assms(1) normalise_both [OF assms(2)])

lemma lifecycle_try_checks:
  "lifecycle_try cfg P request w =
     attempt (py_get request ''partition'') request w (\<lambda>p.
     attempt (py_get request ''offset'') request w (\<lambda>off.
     checks cfg P ''Lifecycle'' lifecycle_fields p off request w (
     (let file_name = uuid4 P (uuid_count w);
          w1 = w\<lparr>uuid_count := Suc (uuid_count w)\<rparr>
      in attempt (py_getitem request ''lifecycle_scripts'') request w1 (\<lambda>scripts.
         (let w2 = w1\<lparr>built := built w1 @ [(file_name, scripts)]\<rparr>
          in attempt (build_tree P file_name scripts) request w2 (\<lambda>path.
             attempt (py_setitem request ''lifecycle_path'' path) request w2 (\<lambda>r0.
             normalise P ''properties'' r0 w2 (\<lambda>r1.
             normalise P ''system_properties'' r1 w2 (\<lambda>r2.
             (case lifecycle_request_handler P r2 of
                (res, r3) \<Rightarrow> (res, r3, w2\<lparr>delegated := delegated w2 @ [r2]\<rparr>))))))))))))"
  by (simp add: lifecycle_try_def lifecycle_fields_def missing_warning_def)

lemma lifecycle_missing:
  assumes "first_missing lifecycle_fields d = Some f"
    "json_get P (PDict d) = Inr content"
    "post P (Envelope (name (failed_topic cfg)) (Message content)) (dead_letter_key d) = None"
  shows "lifecycle_handle_request cfg P (PDict d) w =
     (Inr (PBool False), PDict d,
      w\<lparr>logged := logged w @ [Log WARNING (missing_warning ''Lifecycle'' f)
                                  [lookup d ''partition'', lookup d ''offset'']],
        posted := posted w @ [dead_letter cfg content d]\<rparr>)"
  by (simp add: lifecycle_handle_request_def lifecycle_try_checks checks_dict attempt_def
        py_get_dict assms(1) discard_dict [OF assms(2,3)] del: py_get.simps)

lemma lifecycle_complete:
  assumes "first_missing lifecycle_fields d = None"
    "map_of d ''lifecycle_scripts'' = Some scripts"
    "build_tree P (uuid4 P (uuid_count w)) scripts = Inr path"
    "normalises P d pm spm"
  shows "lifecycle_try cfg P (PDict d) w =
     (case lifecycle_request_handler P
             (PDict (normalised pm spm (AList.update ''lifecycle_path'' path d))) of
        (res, r3) \<Rightarrow>
          (res, r3,
           w\<lparr>uuid_count := Suc (uuid_count w),
             built := built w @ [(uuid4 P (uuid_count w), scripts)],
             delegated := delegated w @
               [PDict (normalised pm spm (AList.update ''lifecycle_path'' path d))]\<rparr>))"
proof -
  have "normalises P (AList.update ''lifecycle_path'' path d) pm spm"
    using assms(4) by (simp add: normalises_def update_conv')
  then show ?thesis
    by (simp add: lifecycle_try_checks checks_dict attempt_def py_get_dict assms(1,2,3)
          normalise_both Let_def del: py_get.simps)
qed

subsection \<open>One polled record\<close>

lemma process_items_first:
  "process_items c cfg P items w =
     (case first_record items of
        None \<Rightarrow> (Inr PNone, w)
      | Some (tp, m) \<Rightarrow> process_message c cfg P tp m w)"
  by (induction items rule: first_record.induct) simp_all

lemma process_request_polled:
  assumes "polled P tp m d"
  shows "process_request c cfg P w =
     (case process_message c cfg P tp m w of
        (Inr v, w') \<Rightarrow> (Inr v, w')
      | (Inl e, w') \<Rightarrow>
          (if is_Exception e then
             (Inl (SystemExit 1), w'\<lparr>logged := logged w' @ [closing_entry cfg e]\<rparr>)
           else (Inl e, w')))"
  using assms
  by (auto simp: polled_def process_request_def step_def process_items_first emit_def
        closing_entry_def split: sum.splits prod.splits)

lemma polled_read: "polled P tp m d \<Longrightarrow> json_read P (cr_value m) = Inr (PDict d)"
  by (auto simp: polled_def split: sum.splits)

lemma map_of_enrich:
  "map_of (enrich tp m d) =
     (map_of d)(''partition'' \<mapsto> PInt (tp_partition tp), ''offset'' \<mapsto> PInt (cr_offset m))"
  by (simp add: enrich_def update_conv')

lemma absent_enrich:
  "k \<noteq> ''partition'' \<Longrightarrow> k \<noteq> ''offset'' \<Longrightarrow> absent (enrich tp m d) k = absent d k"
  by (simp add: absent_def map_of_enrich)

lemma first_missing_enrich:
  "''partition'' \<notin> set ks \<Longrightarrow> ''offset'' \<notin> set ks \<Longrightarrow>
     first_missing ks (enrich tp m d) = first_missing ks d"
  by (induction ks) (auto simp: absent_enrich)

lemma first_missing_enrich_infrastructure:
  "first_missing infrastructure_fields (enrich tp m d) = first_missing infrastructure_fields d"
  by (rule first_missing_enrich) (simp_all add: infrastructure_fields_def)

lemma first_missing_enrich_lifecycle:
  "first_missing lifecycle_fields (enrich tp m d) = first_missing lifecycle_fields d"
  by (rule first_missing_enrich) (simp_all add: lifecycle_fields_def)

lemma lookup_enrich:
  "lookup (enrich tp m d) ''partition'' = PInt (tp_partition tp)"
  "lookup (enrich tp m d) ''offset'' = PInt (cr_offset m)"
  "lookup (enrich tp m d) ''request_id'' = lookup d ''request_id''"
  by (simp_all add: lookup_def map_of_enrich)

lemma dead_letter_key_enrich: "dead_letter_key (enrich tp m d) = dead_letter_key d"
  by (simp add: dead_letter_key_def absent_enrich map_of_enrich)

lemma dead_letter_enrich: "dead_letter cfg content (enrich tp m d) = dead_letter cfg content d"
  by (simp add: dead_letter_def dead_letter_key_enrich)

lemma normalises_enrich: "normalises P (enrich tp m d) pm spm = normalises P d pm spm"
  by (simp add: normalises_def map_of_enrich)

lemma process_message_dict:
  assumes "json_read P (cr_value m) = Inr (PDict d)" "\<not> absent d ''request_id''"
  shows "process_message c cfg P tp m w =
     (case handle_request c cfg P (PDict (enrich tp m d))
             (w\<lparr>logged := logged w @ [reading_entry cfg tp]\<rparr>) of
        (Inl e, rc, w2) \<Rightarrow> (Inl e, w2)
      | (Inr v, rc, w2) \<Rightarrow>
          (if py_truthy v then
             (case commit P of
                Some e \<Rightarrow>
                  (Inl e, w2\<lparr>logged := logged w2 @
                     [Log DEBUG ''Committing request with id {0} on topic {1} for partition {2} offset {3}''
                        [lookup d ''request_id'', PStr (tp_topic tp), PInt (tp_partition tp),
                         PInt (cr_offset m)]],
                     commit_calls := Suc (commit_calls w2)\<rparr>)
              | None \<Rightarrow>
                  (Inr (PBool True), w2\<lparr>logged := logged w2 @
                     [Log DEBUG ''Committing request with id {0} on topic {1} for partition {2} offset {3}''
                        [lookup d ''request_id'', PStr (tp_topic tp), PInt (tp_partition tp),
                         PInt (cr_offset m)]],
                     commit_calls := Suc (commit_calls w2)\<rparr>))
           else
             forward_and_return_False cfg P rc
               (w2\<lparr>logged := logged w2 @
                  [Log WARNING ''Adding failed request with id {0} to failed topic''
                     [lookup d ''request_id'']]\<rparr>)))"
  using assms
  by (simp add: process_message_def step_def missing_dict lookup_def emit_def Let_def enrich_def
        reading_entry_def split: prod.splits sum.splits option.splits)

lemma process_message_no_id:
  assumes "json_read P (cr_value m) = Inr (PDict d)" "absent d ''request_id''"
  shows "process_message c cfg P tp m w =
     forward_and_return_False cfg P (PDict d)
       (w\<lparr>logged := logged w @
          [reading_entry cfg tp,
           Log WARNING
             ''Request for topic {0} partition {1} offset {2} is missing request_id. This request has been discarded.''
             [PStr (tp_topic tp), PInt (tp_partition tp), PInt (cr_offset m)]]\<rparr>)"
  using assms
  by (simp add: process_message_def step_def missing_dict emit_def Let_def reading_entry_def)

section \<open>The dead-letter forward\<close>



section \<open>A poll without a record\<close>

text \<open>
  C6. When the poll yields no record, \<open>process_request\<close> leaves the world as it was:
  no commit, no publish, no log line. What it returns is \<open>None\<close>, the value of a
  Python function that ends without \<open>return\<close>, and not \<open>False\<close>.
\<close>

theorem process_request_no_record:
  "process_request c cfg (P\<lparr>poll := (\<lambda>timeout_ms max_records. Inr [])\<rparr>) w = (Inr PNone, w)"
  by (simp add: process_request_def step_def)

section \<open>Required fields\<close>

text \<open>
  C2. \<open>KafkaInfrastructureRequestQueueHandler.handle_request\<close> checks \<open>request_id\<close>,
  \<open>template\<close>, \<open>template_type\<close>, \<open>properties\<close>, \<open>system_properties\<close>,
  \<open>deployment_location\<close> in this order: for the first of them that is absent or
  \<open>None\<close> it logs the warning of that field, forwards the request to the dead-letter
  topic and returns \<open>False\<close>; the request handler is not called and nothing is
  committed.
\<close>

theorem infrastructure_handle_request_first_missing:
  assumes "first_missing infrastructure_fields d = Some f"
    "json_get P (PDict d) = Inr content"
    "post P (Envelope (name (failed_topic cfg)) (Message content)) (dead_letter_key d) = None"
  shows "handle_request KafkaInfrastructureRequestQueueHandler cfg P (PDict d) w =
     (Inr (PBool False), PDict d,
      w\<lparr>logged := logged w @
           [Log WARNING (missing_warning ''Infrastructure'' f)
              [lookup d ''partition'', lookup d ''offset'']],
        posted := posted w @ [dead_letter cfg content d]\<rparr>)"
  using assms by (simp add: infrastructure_missing)

theorem infrastructure_handle_request_first_missing_witness:
  "handle_request KafkaInfrastructureRequestQueueHandler demo_config
     (demo_ports PNone (Inr (PBool True))) (PDict demo_no_template) world0 =
     (Inr (PBool False), PDict demo_no_template,
      world0\<lparr>logged :=
           [Log WARNING
              ''Infrastructure request for partition {0} offset {1} is missing template. This request has been discarded''
              [PNone, PNone]],
        posted :=
           [(Envelope (Some ''requests_failed'')
               (Message ''request_id;template_type;properties;system_properties;deployment_location;''),
             Some (PStr ''r3''))]\<rparr>)"
  using infrastructure_handle_request_first_missing
    [of demo_no_template "''template''" "demo_ports PNone (Inr (PBool True))"
        "''request_id;template_type;properties;system_properties;deployment_location;''"
        demo_config world0]
  by (simp add: demo_ports_def demo_keys_def demo_no_template_def demo_config_def world0_def
        infrastructure_fields_def absent_def missing_warning_def lookup_def dead_letter_def
        dead_letter_key_def)

section \<open>A record without a request id\<close>

text \<open>
  C5, as the code has it. When the payload of the polled record has no \<open>request_id\<close>
  or has \<open>None\<close> there, \<open>process_request\<close> logs a warning, forwards the request to the
  dead-letter topic without a key and returns \<open>False\<close>. Nothing else is validated and
  the \<open>handle_request\<close> hook is not called: the outcome is the same for every handler
  class, and no request reaches a request handler.
\<close>

theorem process_request_without_request_id:
  assumes "polled P tp m d" "absent d ''request_id''"
    "json_get P (PDict d) = Inr content"
    "post P (Envelope (name (failed_topic cfg)) (Message content)) None = None"
  shows "process_request c cfg P w =
     (Inr (PBool False),
      w\<lparr>logged := logged w @
           [reading_entry cfg tp,
            Log WARNING
              ''Request for topic {0} partition {1} offset {2} is missing request_id. This request has been discarded.''
              [PStr (tp_topic tp), PInt (tp_partition tp), PInt (cr_offset m)]],
        posted := posted w @ [(Envelope (name (failed_topic cfg)) (Message content), None)]\<rparr>)"
proof -
  have key: "dead_letter_key d = None"
    using assms(2) by (simp add: dead_letter_key_def)
  show ?thesis
    using assms(3,4)
    by (simp add: process_request_polled [OF assms(1)]
          process_message_no_id [OF polled_read [OF assms(1)] assms(2)]
          forward_dict key dead_letter_def)
qed

theorem process_request_without_request_id_witness:
  "process_request KafkaInfrastructureRequestQueueHandler demo_config
     (demo_ports (PDict demo_no_id) (Inr (PBool True))) world0 =
     (Inr (PBool False),
      world0\<lparr>logged :=
           [Log DEBUG ''Reading topic {0} partition {1} group {2}''
              [PStr ''requests'', PInt 2, PStr ''drivers''],
            Log WARNING
              ''Request for topic {0} partition {1} offset {2} is missing request_id. This request has been discarded.''
              [PStr ''requests'', PInt 2, PInt 7]],
        posted :=
           [(Envelope (Some ''requests_failed'') (Message ''request_id;template;''), None)]\<rparr>)"
  using process_request_without_request_id
    [of "demo_ports (PDict demo_no_id) (Inr (PBool True))" demo_tp demo_record demo_no_id
        "''request_id;template;''" demo_config KafkaInfrastructureRequestQueueHandler world0]
  by (simp add: polled_def demo_ports_def demo_keys_def demo_no_id_def demo_config_def
        world0_def demo_tp_def demo_record_def absent_def reading_entry_def)

text \<open>
  An empty string is not \<open>None\<close>: a complete infrastructure request whose
  \<open>request_id\<close> is \<open>''\<close> goes through the hook to the request handler and is
  committed.
\<close>

theorem process_request_empty_request_id:
  "lookup demo_empty_id ''request_id'' = PStr '''' \<and>
   process_request KafkaInfrastructureRequestQueueHandler demo_config
     (demo_ports (PDict demo_empty_id) (Inr (PBool True))) world0 =
     (Inr (PBool True),
      world0\<lparr>logged :=
           [Log DEBUG ''Reading topic {0} partition {1} group {2}''
              [PStr ''requests'', PInt 2, PStr ''drivers''],
            Log DEBUG
              ''Committing request with id {0} on topic {1} for partition {2} offset {3}''
              [PStr '''', PStr ''requests'', PInt 2, PInt 7]],
        commit_calls := 1,
        delegated := [PDict (enrich demo_tp demo_record demo_empty_id)]\<rparr>)"
proof -
  let ?P = "demo_ports (PDict demo_empty_id) (Inr (PBool True))"
  have p: "polled ?P demo_tp demo_record demo_empty_id"
    by (simp add: polled_def demo_ports_def)
  have a: "\<not> absent demo_empty_id ''request_id''"
    by (simp add: absent_def demo_empty_id_def)
  have f: "first_missing infrastructure_fields (enrich demo_tp demo_record demo_empty_id) = None"
    unfolding first_missing_enrich_infrastructure
    by (simp add: infrastructure_fields_def absent_def demo_empty_id_def)
  have n: "normalises ?P (enrich demo_tp demo_record demo_empty_id) (PDict []) (PDict [])"
    unfolding normalises_enrich
    by (simp add: normalises_def demo_ports_def demo_empty_id_def)
  have same: "normalised (PDict []) (PDict []) (enrich demo_tp demo_record demo_empty_id) =
      enrich demo_tp demo_record demo_empty_id"
    by (simp add: normalised_def enrich_def demo_empty_id_def)
  have h: "handle_request KafkaInfrastructureRequestQueueHandler demo_config ?P
      (PDict (enrich demo_tp demo_record demo_empty_id)) w =
      (Inr (PBool True), PDict (enrich demo_tp demo_record demo_empty_id),
       w\<lparr>delegated := delegated w @ [PDict (enrich demo_tp demo_record demo_empty_id)]\<rparr>)" for w
    by (simp add: infrastructure_handle_request_def infrastructure_complete [OF f n] same)
       (simp add: demo_ports_def)
  have c: "commit ?P = None"
    by (simp add: demo_ports_def)
  show ?thesis
    by (simp add: process_request_polled [OF p] process_message_dict [OF polled_read [OF p] a]
          h c del: handle_request.simps)
       (simp add: lookup_def demo_empty_id_def reading_entry_def demo_tp_def demo_record_def
          demo_config_def world0_def)
qed

section \<open>A request that the hook rejects\<close>

text \<open>
  C10. When the polled request has a request id but lacks another field its handler
  requires, \<open>handle_failed_request\<close> runs twice for it: once inside the specialised
  \<open>handle_request\<close> before that returns \<open>False\<close>, and once in \<open>process_request\<close> on
  seeing the \<open>False\<close>. The dead-letter topic gets the same message twice.
\<close>

theorem process_request_posts_twice:
  assumes "polled P tp m d" "\<not> absent d ''request_id''"
    "first_missing (required_fields c) d = Some f"
    "json_get P (PDict (enrich tp m d)) = Inr content"
    "post P (Envelope (name (failed_topic cfg)) (Message content)) (dead_letter_key d) = None"
  shows "process_request c cfg P w =
     (Inr (PBool False),
      w\<lparr>logged := logged w @
           [reading_entry cfg tp,
            Log WARNING (missing_warning (label c) f)
              [PInt (tp_partition tp), PInt (cr_offset m)],
            Log WARNING ''Adding failed request with id {0} to failed topic''
              [lookup d ''request_id'']],
        posted := posted w @
           [(Envelope (name (failed_topic cfg)) (Message content), Some (lookup d ''request_id'')),
            (Envelope (name (failed_topic cfg)) (Message content), Some (lookup d ''request_id''))]\<rparr>)"
proof -
  let ?d = "enrich tp m d"
  let ?w = "w\<lparr>logged := logged w @ [reading_entry cfg tp]\<rparr>"
  have key: "dead_letter_key d = Some (lookup d ''request_id'')"
    using assms(2) by (auto simp: dead_letter_key_def absent_def lookup_def split: option.splits)
  have post: "post P (Envelope (name (failed_topic cfg)) (Message content)) (dead_letter_key ?d)
      = None"
    using assms(5) by (simp add: dead_letter_key_enrich)
  have h: "handle_request c cfg P (PDict ?d) ?w =
      (Inr (PBool False), PDict ?d,
       ?w\<lparr>logged := logged ?w @
            [Log WARNING (missing_warning (label c) f)
               [lookup ?d ''partition'', lookup ?d ''offset'']],
          posted := posted ?w @ [dead_letter cfg content ?d]\<rparr>)"
  proof (cases c)
    case KafkaRequestQueueHandler
    with assms(3) show ?thesis by simp
  next
    case KafkaInfrastructureRequestQueueHandler
    with assms(3) have "first_missing infrastructure_fields ?d = Some f"
      by (simp add: first_missing_enrich_infrastructure)
    from infrastructure_missing [OF this assms(4) post]
    show ?thesis using KafkaInfrastructureRequestQueueHandler by simp
  next
    case KafkaLifecycleRequestQueueHandler
    with assms(3) have "first_missing lifecycle_fields ?d = Some f"
      by (simp add: first_missing_enrich_lifecycle)
    from lifecycle_missing [OF this assms(4) post]
    show ?thesis using KafkaLifecycleRequestQueueHandler by simp
  qed
  show ?thesis
    by (simp add: process_request_polled [OF assms(1)]
          process_message_dict [OF polled_read [OF assms(1)] assms(2)] h
          forward_dict [OF assms(4) post] lookup_enrich dead_letter_enrich dead_letter_def
          dead_letter_key_enrich key)
qed

theorem process_request_posts_twice_witness:
  "process_request KafkaLifecycleRequestQueueHandler demo_config
     (demo_ports (PDict demo_no_scripts) (Inr (PBool True))) world0 =
     (Inr (PBool False),
      world0\<lparr>logged :=
           [Log DEBUG ''Reading topic {0} partition {1} group {2}''
              [PStr ''requests'', PInt 2, PStr ''drivers''],
            Log WARNING
              ''Lifecycle request for partition {0} offset {1} is missing lifecycle_scripts. This request has been discarded''
              [PInt 2, PInt 7],
            Log WARNING ''Adding failed request with id {0} to failed topic'' [PStr ''r4'']],
        posted :=
           [(Envelope (Some ''requests_failed'')
               (Message ''request_id;lifecycle_name;system_properties;properties;deployment_location;partition;offset;''),
             Some (PStr ''r4'')),
            (Envelope (Some ''requests_failed'')
               (Message ''request_id;lifecycle_name;system_properties;properties;deployment_location;partition;offset;''),
             Some (PStr ''r4''))]\<rparr>)"
  using process_request_posts_twice
    [of "demo_ports (PDict demo_no_scripts) (Inr (PBool True))" demo_tp demo_record
        demo_no_scripts KafkaLifecycleRequestQueueHandler "''lifecycle_scripts''"
        "''request_id;lifecycle_name;system_properties;properties;deployment_location;partition;offset;''"
        demo_config world0]
  by (simp add: polled_def demo_ports_def demo_keys_def demo_no_scripts_def demo_config_def
        world0_def demo_tp_def demo_record_def absent_def reading_entry_def lifecycle_fields_def
        enrich_def missing_warning_def lookup_def dead_letter_key_def)

section \<open>Complete requests\<close>

lemma infrastructure_has_id: "first_missing infrastructure_fields d = None \<Longrightarrow> \<not> absent d ''request_id''"
  by (simp add: infrastructure_fields_def split: if_splits)

lemma lifecycle_has_id: "first_missing lifecycle_fields d = None \<Longrightarrow> \<not> absent d ''request_id''"
  by (simp add: lifecycle_fields_def split: if_splits)

lemma infrastructure_polled:
  assumes "first_missing infrastructure_fields d = None" "normalises P d pm spm"
  shows "infrastructure_try cfg P (PDict (enrich tp m d)) w =
     (case infrastructure_request_handler P (PDict (normalised pm spm (enrich tp m d))) of
        (res, r3) \<Rightarrow>
          (res, r3, w\<lparr>delegated := delegated w @ [PDict (normalised pm spm (enrich tp m d))]\<rparr>))"
  using assms
  by (intro infrastructure_complete)
     (simp_all add: first_missing_enrich_infrastructure normalises_enrich)

lemma lifecycle_polled:
  assumes "first_missing lifecycle_fields d = None" "map_of d ''lifecycle_scripts'' = Some scripts"
    "build_tree P (uuid4 P (uuid_count w)) scripts = Inr path" "normalises P d pm spm"
  shows "lifecycle_try cfg P (PDict (enrich tp m d)) w =
     (case lifecycle_request_handler P
             (PDict (normalised pm spm (AList.update ''lifecycle_path'' path (enrich tp m d)))) of
        (res, r3) \<Rightarrow>
          (res, r3,
           w\<lparr>uuid_count := Suc (uuid_count w),
             built := built w @ [(uuid4 P (uuid_count w), scripts)],
             delegated := delegated w @
               [PDict (normalised pm spm
                  (AList.update ''lifecycle_path'' path (enrich tp m d)))]\<rparr>))"
  using assms
  by (intro lifecycle_complete)
     (simp_all add: first_missing_enrich_lifecycle normalises_enrich map_of_enrich)

text \<open>
  C1. When the payload of the polled record has all fields its handler requires and
  the request handler returns a true value, \<open>process_request\<close> returns \<open>True\<close>,
  \<open>commit()\<close> is called once, and nothing is published to the dead-letter topic. The
  first half is the infrastructure handler, the second the lifecycle handler.
\<close>

theorem process_request_commits_once:
  assumes "polled P tp m d" "normalises P d pm spm" "commit P = None" "py_truthy v"
  shows
    "(first_missing infrastructure_fields d = None \<and>
      infrastructure_request_handler P (PDict (normalised pm spm (enrich tp m d))) = (Inr v, r)
      \<longrightarrow>
      process_request KafkaInfrastructureRequestQueueHandler cfg P w =
        (Inr (PBool True),
         w\<lparr>logged := logged w @
              [reading_entry cfg tp,
               Log DEBUG ''Committing request with id {0} on topic {1} for partition {2} offset {3}''
                 [lookup d ''request_id'', PStr (tp_topic tp), PInt (tp_partition tp),
                  PInt (cr_offset m)]],
           commit_calls := Suc (commit_calls w),
           delegated := delegated w @ [PDict (normalised pm spm (enrich tp m d))]\<rparr>))
     \<and>
     (first_missing lifecycle_fields d = None \<and>
      map_of d ''lifecycle_scripts'' = Some scripts \<and>
      build_tree P (uuid4 P (uuid_count w)) scripts = Inr path \<and>
      lifecycle_request_handler P
        (PDict (normalised pm spm (AList.update ''lifecycle_path'' path (enrich tp m d)))) =
        (Inr v, r)
      \<longrightarrow>
      process_request KafkaLifecycleRequestQueueHandler cfg P w =
        (Inr (PBool True),
         w\<lparr>logged := logged w @
              [reading_entry cfg tp,
               Log DEBUG ''Committing request with id {0} on topic {1} for partition {2} offset {3}''
                 [lookup d ''request_id'', PStr (tp_topic tp), PInt (tp_partition tp),
                  PInt (cr_offset m)]],
           commit_calls := Suc (commit_calls w),
           delegated := delegated w @
             [PDict (normalised pm spm (AList.update ''lifecycle_path'' path (enrich tp m d)))],
           built := built w @ [(uuid4 P (uuid_count w), scripts)],
           uuid_count := Suc (uuid_count w)\<rparr>))"
proof (intro conjI impI; elim conjE)
  assume f: "first_missing infrastructure_fields d = None"
    and h: "infrastructure_request_handler P (PDict (normalised pm spm (enrich tp m d))) = (Inr v, r)"
  show "process_request KafkaInfrastructureRequestQueueHandler cfg P w =
        (Inr (PBool True),
         w\<lparr>logged := logged w @
              [reading_entry cfg tp,
               Log DEBUG ''Committing request with id {0} on topic {1} for partition {2} offset {3}''
                 [lookup d ''request_id'', PStr (tp_topic tp), PInt (tp_partition tp),
                  PInt (cr_offset m)]],
           commit_calls := Suc (commit_calls w),
           delegated := delegated w @ [PDict (normalised pm spm (enrich tp m d))]\<rparr>)"
    using assms(3,4)
    by (simp add: process_request_polled [OF assms(1)]
          process_message_dict [OF polled_read [OF assms(1)] infrastructure_has_id [OF f]]
          infrastructure_handle_request_def infrastructure_polled [OF f assms(2)] h)
next
  assume f: "first_missing lifecycle_fields d = None"
    and s: "map_of d ''lifecycle_scripts'' = Some scripts"
    and b: "build_tree P (uuid4 P (uuid_count w)) scripts = Inr path"
    and h: "lifecycle_request_handler P
        (PDict (normalised pm spm (AList.update ''lifecycle_path'' path (enrich tp m d)))) =
        (Inr v, r)"
  let ?w = "w\<lparr>logged := logged w @ [reading_entry cfg tp]\<rparr>"
  have b': "build_tree P (uuid4 P (uuid_count ?w)) scripts = Inr path"
    using b by simp
  show "process_request KafkaLifecycleRequestQueueHandler cfg P w =
        (Inr (PBool True),
         w\<lparr>logged := logged w @
              [reading_entry cfg tp,
               Log DEBUG ''Committing request with id {0} on topic {1} for partition {2} offset {3}''
                 [lookup d ''request_id'', PStr (tp_topic tp), PInt (tp_partition tp),
                  PInt (cr_offset m)]],
           commit_calls := Suc (commit_calls w),
           delegated := delegated w @
             [PDict (normalised pm spm (AList.update ''lifecycle_path'' path (enrich tp m d)))],
           built := built w @ [(uuid4 P (uuid_count w), scripts)],
           uuid_count := Suc (uuid_count w)\<rparr>)"
    using assms(3,4)
    by (simp add: process_request_polled [OF assms(1)]
          process_message_dict [OF polled_read [OF assms(1)] lifecycle_has_id [OF f]]
          lifecycle_handle_request_def lifecycle_polled [OF f s b' assms(2)] h)
qed

theorem process_request_commits_once_witness:
  "fst (process_request KafkaInfrastructureRequestQueueHandler demo_config
          (demo_ports (PDict demo_infrastructure) (Inr (PBool True))) world0) = Inr (PBool True)
   \<and> commit_calls (snd (process_request KafkaInfrastructureRequestQueueHandler demo_config
          (demo_ports (PDict demo_infrastructure) (Inr (PBool True))) world0)) = 1
   \<and> posted (snd (process_request KafkaInfrastructureRequestQueueHandler demo_config
          (demo_ports (PDict demo_infrastructure) (Inr (PBool True))) world0)) = []
   \<and> fst (process_request KafkaLifecycleRequestQueueHandler demo_config
          (demo_ports (PDict demo_lifecycle) (Inr (PBool True))) world0) = Inr (PBool True)
   \<and> commit_calls (snd (process_request KafkaLifecycleRequestQueueHandler demo_config
          (demo_ports (PDict demo_lifecycle) (Inr (PBool True))) world0)) = 1
   \<and> posted (snd (process_request KafkaLifecycleRequestQueueHandler demo_config
          (demo_ports (PDict demo_lifecycle) (Inr (PBool True))) world0)) = []"
proof -
  let ?I = "demo_ports (PDict demo_infrastructure) (Inr (PBool True))"
  let ?L = "demo_ports (PDict demo_lifecycle) (Inr (PBool True))"
  have pi: "polled ?I demo_tp demo_record demo_infrastructure"
    and pl: "polled ?L demo_tp demo_record demo_lifecycle"
    by (simp_all add: polled_def demo_ports_def)
  have ni: "normalises ?I demo_infrastructure (PDict []) (PDict [])"
    and nl: "normalises ?L demo_lifecycle (PDict []) (PDict [])"
    by (simp_all add: normalises_def demo_ports_def demo_infrastructure_def demo_lifecycle_def)
  have ci: "commit ?I = None" and cl: "commit ?L = None"
    by (simp_all add: demo_ports_def)
  have t: "py_truthy (PBool True)"
    by simp
  have fi: "first_missing infrastructure_fields demo_infrastructure = None"
    by (simp add: infrastructure_fields_def absent_def demo_infrastructure_def)
  have fl: "first_missing lifecycle_fields demo_lifecycle = None"
    by (simp add: lifecycle_fields_def absent_def demo_lifecycle_def)
  have hi: "infrastructure_request_handler ?I r = (Inr (PBool True), r)"
    and hl: "lifecycle_request_handler ?L r = (Inr (PBool True), r)" for r
    by (simp_all add: demo_ports_def)
  have sl: "map_of demo_lifecycle ''lifecycle_scripts'' = Some (PStr ''archive'')"
    by (simp add: demo_lifecycle_def)
  have bl: "build_tree ?L (uuid4 ?L (uuid_count world0)) (PStr ''archive'') = Inr (PStr ''/scripts/u'')"
    by (simp add: demo_ports_def world0_def)
  from process_request_commits_once [OF pi ni ci t, THEN conjunct1, rule_format, OF conjI, OF fi hi,
      of demo_config world0]
  have "fst (process_request KafkaInfrastructureRequestQueueHandler demo_config ?I world0) =
          Inr (PBool True)
     \<and> commit_calls (snd (process_request KafkaInfrastructureRequestQueueHandler demo_config ?I
          world0)) = 1
     \<and> posted (snd (process_request KafkaInfrastructureRequestQueueHandler demo_config ?I
          world0)) = []"
    by (simp add: world0_def)
  moreover
  from process_request_commits_once [OF pl nl cl t, THEN conjunct2, rule_format,
      of "PStr ''archive''" world0 "PStr ''/scripts/u''" _ demo_config]
    fl sl bl hl
  have "fst (process_request KafkaLifecycleRequestQueueHandler demo_config ?L world0) =
          Inr (PBool True)
     \<and> commit_calls (snd (process_request KafkaLifecycleRequestQueueHandler demo_config ?L
          world0)) = 1
     \<and> posted (snd (process_request KafkaLifecycleRequestQueueHandler demo_config ?L
          world0)) = []"
    by (simp add: world0_def)
  ultimately show ?thesis
    by simp
qed

section \<open>A request handler that raises\<close>

text \<open>
  C4. When the request handler raises an exception on the polled request, the
  specialised \<open>handle_request\<close> logs it with the request id and the topic and raises
  it again; \<open>process_request\<close> then logs that the queue is closing and leaves through
  \<open>SystemExit\<close> with status 1 instead of returning. On this path \<open>commit()\<close> is not
  called and nothing is published. The first half is the infrastructure handler, the
  second the lifecycle handler.
\<close>

theorem process_request_exits_when_handler_raises:
  assumes "polled P tp m d" "normalises P d pm spm" "is_Exception e"
  shows
    "(first_missing infrastructure_fields d = None \<and>
      infrastructure_request_handler P (PDict (normalised pm spm (enrich tp m d))) =
        (Inl e, PDict d')
      \<longrightarrow>
      process_request KafkaInfrastructureRequestQueueHandler cfg P w =
        (Inl (SystemExit 1),
         w\<lparr>logged := logged w @
              [reading_entry cfg tp,
               Log ERROR ''Caught exception processing infrastructure request {0} for topic {1}: {2}''
                 [lookup d' ''request_id'', opt_str (name (topic cfg)), PStr (exn_str e)],
               closing_entry cfg e],
           delegated := delegated w @ [PDict (normalised pm spm (enrich tp m d))]\<rparr>))
     \<and>
     (first_missing lifecycle_fields d = None \<and>
      map_of d ''lifecycle_scripts'' = Some scripts \<and>
      build_tree P (uuid4 P (uuid_count w)) scripts = Inr path \<and>
      lifecycle_request_handler P
        (PDict (normalised pm spm (AList.update ''lifecycle_path'' path (enrich tp m d)))) =
        (Inl e, PDict d')
      \<longrightarrow>
      process_request KafkaLifecycleRequestQueueHandler cfg P w =
        (Inl (SystemExit 1),
         w\<lparr>logged := logged w @
              [reading_entry cfg tp,
               Log ERROR ''Caught exception processing lifecycle request {0} for topic {1}: {2}''
                 [lookup d' ''request_id'', opt_str (name (topic cfg)), PStr (exn_str e)],
               closing_entry cfg e],
           delegated := delegated w @
             [PDict (normalised pm spm (AList.update ''lifecycle_path'' path (enrich tp m d)))],
           built := built w @ [(uuid4 P (uuid_count w), scripts)],
           uuid_count := Suc (uuid_count w)\<rparr>))"
proof (intro conjI impI; elim conjE)
  assume f: "first_missing infrastructure_fields d = None"
    and h: "infrastructure_request_handler P (PDict (normalised pm spm (enrich tp m d))) =
        (Inl e, PDict d')"
  show "process_request KafkaInfrastructureRequestQueueHandler cfg P w =
        (Inl (SystemExit 1),
         w\<lparr>logged := logged w @
              [reading_entry cfg tp,
               Log ERROR ''Caught exception processing infrastructure request {0} for topic {1}: {2}''
                 [lookup d' ''request_id'', opt_str (name (topic cfg)), PStr (exn_str e)],
               closing_entry cfg e],
           delegated := delegated w @ [PDict (normalised pm spm (enrich tp m d))]\<rparr>)"
    using assms(3)
    by (simp add: process_request_polled [OF assms(1)]
          process_message_dict [OF polled_read [OF assms(1)] infrastructure_has_id [OF f]]
          infrastructure_handle_request_def infrastructure_polled [OF f assms(2)] h
          reraise_logged_dict)
next
  assume f: "first_missing lifecycle_fields d = None"
    and s: "map_of d ''lifecycle_scripts'' = Some scripts"
    and b: "build_tree P (uuid4 P (uuid_count w)) scripts = Inr path"
    and h: "lifecycle_request_handler P
        (PDict (normalised pm spm (AList.update ''lifecycle_path'' path (enrich tp m d)))) =
        (Inl e, PDict d')"
  let ?w = "w\<lparr>logged := logged w @ [reading_entry cfg tp]\<rparr>"
  have b': "build_tree P (uuid4 P (uuid_count ?w)) scripts = Inr path"
    using b by simp
  show "process_request KafkaLifecycleRequestQueueHandler cfg P w =
        (Inl (SystemExit 1),
         w\<lparr>logged := logged w @
              [reading_entry cfg tp,
               Log ERROR ''Caught exception processing lifecycle request {0} for topic {1}: {2}''
                 [lookup d' ''request_id'', opt_str (name (topic cfg)), PStr (exn_str e)],
               closing_entry cfg e],
           delegated := delegated w @
             [PDict (normalised pm spm (AList.update ''lifecycle_path'' path (enrich tp m d)))],
           built := built w @ [(uuid4 P (uuid_count w), scripts)],
           uuid_count := Suc (uuid_count w)\<rparr>)"
    using assms(3)
    by (simp add: process_request_polled [OF assms(1)]
          process_message_dict [OF polled_read [OF assms(1)] lifecycle_has_id [OF f]]
          lifecycle_handle_request_def lifecycle_polled [OF f s b' assms(2)] h
          reraise_logged_dict)
qed

theorem process_request_exits_when_handler_raises_witness:
  "process_request KafkaInfrastructureRequestQueueHandler demo_config
     (demo_ports (PDict demo_infrastructure) (Inl (Exception ''RuntimeError'' ''boom''))) world0 =
     (Inl (SystemExit 1),
      world0\<lparr>logged :=
           [Log DEBUG ''Reading topic {0} partition {1} group {2}''
              [PStr ''requests'', PInt 2, PStr ''drivers''],
            Log ERROR ''Caught exception processing infrastructure request {0} for topic {1}: {2}''
              [PStr ''r1'', PStr ''requests'', PStr ''boom''],
            Log ERROR ''Lifecycle request queue for topic {0} is closing due to error {1}''
              [PStr ''requests'', PStr ''boom'']],
        delegated := [PDict (enrich demo_tp demo_record demo_infrastructure)]\<rparr>)"
proof -
  let ?e = "Exception ''RuntimeError'' ''boom''"
  let ?P = "demo_ports (PDict demo_infrastructure) (Inl ?e)"
  let ?d = "enrich demo_tp demo_record demo_infrastructure"
  have p: "polled ?P demo_tp demo_record demo_infrastructure"
    by (simp add: polled_def demo_ports_def)
  have n: "normalises ?P demo_infrastructure (PDict []) (PDict [])"
    by (simp add: normalises_def demo_ports_def demo_infrastructure_def)
  have e: "is_Exception ?e"
    by simp
  have f: "first_missing infrastructure_fields demo_infrastructure = None"
    by (simp add: infrastructure_fields_def absent_def demo_infrastructure_def)
  have same: "normalised (PDict []) (PDict []) ?d = ?d"
    by (simp add: normalised_def enrich_def demo_infrastructure_def)
  have h: "infrastructure_request_handler ?P (PDict (normalised (PDict []) (PDict []) ?d)) =
      (Inl ?e, PDict ?d)"
    by (simp add: same) (simp add: demo_ports_def)
  from process_request_exits_when_handler_raises [OF p n e, THEN conjunct1, rule_format,
      OF conjI, OF f h, of demo_config world0]
  show ?thesis
    by (simp add: same lookup_enrich)
       (simp add: lookup_def demo_infrastructure_def reading_entry_def closing_entry_def
          demo_tp_def demo_record_def demo_config_def world0_def)
qed

section \<open>A forward that fails\<close>

lemma forward_raises:
  "json_get P (PDict d) = Inl e \<Longrightarrow>
     forward_and_return_False cfg P (PDict d) w = (Inl e, w)"
  by (simp add: forward_and_return_False_def handle_failed_request_def)

text \<open>
  C3. When the \<open>handle_request\<close> hook returns a false value for the polled request,
  \<open>process_request\<close> is to forward the request to the dead-letter topic and return
  \<open>False\<close>, without a commit. What it does for a complete request whose request
  handler returns a false value: the dict it forwards is the one in which the hook has
  put the \<open>PropValueMap\<close> containers for \<open>properties\<close> and \<open>system_properties\<close>,
  and when the serialiser refuses that dict the exception ends \<open>process_request\<close>
  through the closing log entry and \<open>SystemExit\<close> with status 1. Nothing is posted
  and \<open>False\<close> is not returned; \<open>commit()\<close> is not called. The first half is the
  infrastructure handler, the second the lifecycle handler.
\<close>

theorem process_request_exits_when_forward_fails:
  assumes "polled P tp m d" "normalises P d pm spm" "\<not> py_truthy v" "is_Exception e"
  shows
    "(first_missing infrastructure_fields d = None \<and>
      infrastructure_request_handler P (PDict (normalised pm spm (enrich tp m d))) =
        (Inr v, PDict d') \<and>
      json_get P (PDict d') = Inl e
      \<longrightarrow>
      process_request KafkaInfrastructureRequestQueueHandler cfg P w =
        (Inl (SystemExit 1),
         w\<lparr>logged := logged w @
              [reading_entry cfg tp,
               Log WARNING ''Adding failed request with id {0} to failed topic''
                 [lookup d ''request_id''],
               closing_entry cfg e],
           delegated := delegated w @ [PDict (normalised pm spm (enrich tp m d))]\<rparr>))
     \<and>
     (first_missing lifecycle_fields d = None \<and>
      map_of d ''lifecycle_scripts'' = Some scripts \<and>
      build_tree P (uuid4 P (uuid_count w)) scripts = Inr path \<and>
      lifecycle_request_handler P
        (PDict (normalised pm spm (AList.update ''lifecycle_path'' path (enrich tp m d)))) =
        (Inr v, PDict d') \<and>
      json_get P (PDict d') = Inl e
      \<longrightarrow>
      process_request KafkaLifecycleRequestQueueHandler cfg P w =
        (Inl (SystemExit 1),
         w\<lparr>logged := logged w @
              [reading_entry cfg tp,
               Log WARNING ''Adding failed request with id {0} to failed topic''
                 [lookup d ''request_id''],
               closing_entry cfg e],
           delegated := delegated w @
             [PDict (normalised pm spm (AList.update ''lifecycle_path'' path (enrich tp m d)))],
           built := built w @ [(uuid4 P (uuid_count w), scripts)],
           uuid_count := Suc (uuid_count w)\<rparr>))"
proof (intro conjI impI; elim conjE)
  assume f: "first_missing infrastructure_fields d = None"
    and h: "infrastructure_request_handler P (PDict (normalised pm spm (enrich tp m d))) =
        (Inr v, PDict d')"
    and j: "json_get P (PDict d') = Inl e"
  show "process_request KafkaInfrastructureRequestQueueHandler cfg P w =
        (Inl (SystemExit 1),
         w\<lparr>logged := logged w @
              [reading_entry cfg tp,
               Log WARNING ''Adding failed request with id {0} to failed topic''
                 [lookup d ''request_id''],
               closing_entry cfg e],
           delegated := delegated w @ [PDict (normalised pm spm (enrich tp m d))]\<rparr>)"
    using assms(3,4)
    by (simp add: process_request_polled [OF assms(1)]
          process_message_dict [OF polled_read [OF assms(1)] infrastructure_has_id [OF f]]
          infrastructure_handle_request_def infrastructure_polled [OF f assms(2)] h
          forward_raises [OF j])
next
  assume f: "first_missing lifecycle_fields d = None"
    and s: "map_of d ''lifecycle_scripts'' = Some scripts"
    and b: "build_tree P (uuid4 P (uuid_count w)) scripts = Inr path"
    and h: "lifecycle_request_handler P
        (PDict (normalised pm spm (AList.update ''lifecycle_path'' path (enrich tp m d)))) =
        (Inr v, PDict d')"
    and j: "json_get P (PDict d') = Inl e"
  let ?w = "w\<lparr>logged := logged w @ [reading_entry cfg tp]\<rparr>"
  have b': "build_tree P (uuid4 P (uuid_count ?w)) scripts = Inr path"
    using b by simp
  show "process_request KafkaLifecycleRequestQueueHandler cfg P w =
        (Inl (SystemExit 1),
         w\<lparr>logged := logged w @
              [reading_entry cfg tp,
               Log WARNING ''Adding failed request with id {0} to failed topic''
                 [lookup d ''request_id''],
               closing_entry cfg e],
           delegated := delegated w @
             [PDict (normalised pm spm (AList.update ''lifecycle_path'' path (enrich tp m d)))],
           built := built w @ [(uuid4 P (uuid_count w), scripts)],
           uuid_count := Suc (uuid_count w)\<rparr>)"
    using assms(3,4)
    by (simp add: process_request_polled [OF assms(1)]
          process_message_dict [OF polled_read [OF assms(1)] lifecycle_has_id [OF f]]
          lifecycle_handle_request_def lifecycle_polled [OF f s b' assms(2)] h
          forward_raises [OF j])
qed

theorem process_request_exits_when_forward_fails_witness:
  "process_request KafkaInfrastructureRequestQueueHandler demo_config
     (strict_ports (PDict demo_infrastructure) (Inr (PBool False))) world0 =
     (Inl (SystemExit 1),
      world0\<lparr>logged :=
           [Log DEBUG ''Reading topic {0} partition {1} group {2}''
              [PStr ''requests'', PInt 2, PStr ''drivers''],
            Log WARNING ''Adding failed request with id {0} to failed topic'' [PStr ''r1''],
            Log ERROR ''Lifecycle request queue for topic {0} is closing due to error {1}''
              [PStr ''requests'',
               PStr ''Object of type PropValueMap is not JSON serializable'']],
        delegated :=
           [PDict (normalised (demo_container (PDict [])) (demo_container (PDict []))
              (enrich demo_tp demo_record demo_infrastructure))]\<rparr>)"
proof -
  let ?e = "Exception ''TypeError'' ''Object of type PropValueMap is not JSON serializable''"
  let ?P = "strict_ports (PDict demo_infrastructure) (Inr (PBool False))"
  let ?c = "demo_container (PDict [])"
  let ?d = "normalised ?c ?c (enrich demo_tp demo_record demo_infrastructure)"
  have p: "polled ?P demo_tp demo_record demo_infrastructure"
    by (simp add: polled_def strict_ports_def demo_ports_def)
  have n: "normalises ?P demo_infrastructure ?c ?c"
    by (simp add: normalises_def strict_ports_def demo_ports_def demo_infrastructure_def)
  have v: "\<not> py_truthy (PBool False)"
    by simp
  have e: "is_Exception ?e"
    by simp
  have f: "first_missing infrastructure_fields demo_infrastructure = None"
    by (simp add: infrastructure_fields_def absent_def demo_infrastructure_def)
  have h: "infrastructure_request_handler ?P (PDict ?d) = (Inr (PBool False), PDict ?d)"
    by (simp add: strict_ports_def demo_ports_def)
  have j: "json_get ?P (PDict ?d) = Inl ?e"
    by (simp add: strict_ports_def demo_dumps_def normalised_def enrich_def
          demo_infrastructure_def demo_container_def)
  from process_request_exits_when_forward_fails [OF p n v e, THEN conjunct1, rule_format,
      OF conjI [OF f conjI [OF h j]], of demo_config world0]
  show ?thesis
    by (simp add: lookup_def demo_infrastructure_def reading_entry_def closing_entry_def
          demo_tp_def demo_record_def demo_config_def world0_def)
qed

section \<open>The script tree of a lifecycle request\<close>

lemma reraise_logged_effects:
  "delegated (snd (snd (reraise_logged template cfg r))) = delegated (snd (snd r))"
  "built (snd (snd (reraise_logged template cfg r))) = built (snd (snd r))"
  "uuid_count (snd (snd (reraise_logged template cfg r))) = uuid_count (snd (snd r))"
  by (simp_all add: reraise_logged_def emit_def split: prod.splits sum.splits)

lemma lookup_lifecycle_path:
  "lookup (normalised pm spm (AList.update ''lifecycle_path'' path d)) ''lifecycle_path'' = path"
  by (simp add: lookup_def normalised_def update_conv')

text \<open>
  C8. For a lifecycle request with all required fields,
  \<open>KafkaLifecycleRequestQueueHandler.handle_request\<close> takes the next identifier of
  \<open>uuid4\<close>, calls \<open>build_tree\<close> with that identifier and the request's
  \<open>lifecycle_scripts\<close>, and the request it hands to the request handler has the
  path \<open>build_tree\<close> returned under \<open>lifecycle_path\<close>. The identifier was not used
  for a tree before, when the generator never repeats itself and the earlier trees
  were named by earlier identifiers. When a required field is missing, the handler
  returns \<open>False\<close> with the request as it was: no identifier is drawn, no tree is
  built, \<open>lifecycle_path\<close> is not set.
\<close>

theorem lifecycle_handle_request_builds_tree:
  "(first_missing lifecycle_fields d = None \<and>
    map_of d ''lifecycle_scripts'' = Some scripts \<and>
    build_tree P (uuid4 P (uuid_count w)) scripts = Inr path \<and>
    normalises P d pm spm
    \<longrightarrow>
    built (snd (snd (handle_request KafkaLifecycleRequestQueueHandler cfg P (PDict d) w))) =
      built w @ [(uuid4 P (uuid_count w), scripts)] \<and>
    uuid_count (snd (snd (handle_request KafkaLifecycleRequestQueueHandler cfg P (PDict d) w))) =
      Suc (uuid_count w) \<and>
    delegated (snd (snd (handle_request KafkaLifecycleRequestQueueHandler cfg P (PDict d) w))) =
      delegated w @ [PDict (normalised pm spm (AList.update ''lifecycle_path'' path d))] \<and>
    lookup (normalised pm spm (AList.update ''lifecycle_path'' path d)) ''lifecycle_path'' = path \<and>
    (inj (uuid4 P) \<and> (\<forall>x \<in> set (built w). \<exists>i < uuid_count w. fst x = uuid4 P i)
       \<longrightarrow> uuid4 P (uuid_count w) \<notin> fst ` set (built w)))
   \<and>
   (first_missing lifecycle_fields d = Some f \<and>
    json_get P (PDict d) = Inr content \<and>
    post P (Envelope (name (failed_topic cfg)) (Message content)) (dead_letter_key d) = None
    \<longrightarrow>
    handle_request KafkaLifecycleRequestQueueHandler cfg P (PDict d) w =
      (Inr (PBool False), PDict d,
       w\<lparr>logged := logged w @
            [Log WARNING (missing_warning ''Lifecycle'' f)
               [lookup d ''partition'', lookup d ''offset'']],
         posted := posted w @ [dead_letter cfg content d]\<rparr>))"
proof (intro conjI impI; elim conjE)
  assume f: "first_missing lifecycle_fields d = None"
    and s: "map_of d ''lifecycle_scripts'' = Some scripts"
    and b: "build_tree P (uuid4 P (uuid_count w)) scripts = Inr path"
    and n: "normalises P d pm spm"
  note t = lifecycle_complete [OF f s b n]
  show "built (snd (snd (handle_request KafkaLifecycleRequestQueueHandler cfg P (PDict d) w))) =
      built w @ [(uuid4 P (uuid_count w), scripts)]"
    by (simp add: lifecycle_handle_request_def reraise_logged_effects t split: prod.splits)
  show "uuid_count (snd (snd (handle_request KafkaLifecycleRequestQueueHandler cfg P (PDict d) w))) =
      Suc (uuid_count w)"
    by (simp add: lifecycle_handle_request_def reraise_logged_effects t split: prod.splits)
  show "delegated (snd (snd (handle_request KafkaLifecycleRequestQueueHandler cfg P (PDict d) w))) =
      delegated w @ [PDict (normalised pm spm (AList.update ''lifecycle_path'' path d))]"
    by (simp add: lifecycle_handle_request_def reraise_logged_effects t split: prod.splits)
  show "lookup (normalised pm spm (AList.update ''lifecycle_path'' path d)) ''lifecycle_path'' = path"
    by (rule lookup_lifecycle_path)
next
  assume i: "inj (uuid4 P)"
    and e: "\<forall>x \<in> set (built w). \<exists>i < uuid_count w. fst x = uuid4 P i"
  show "uuid4 P (uuid_count w) \<notin> fst ` set (built w)"
  proof
    assume "uuid4 P (uuid_count w) \<in> fst ` set (built w)"
    then obtain x where "x \<in> set (built w)" "fst x = uuid4 P (uuid_count w)"
      by auto
    with e obtain j where "j < uuid_count w" "uuid4 P j = uuid4 P (uuid_count w)"
      by force
    with i show False
      by (auto dest: injD)
  qed
next
  assume "first_missing lifecycle_fields d = Some f" "json_get P (PDict d) = Inr content"
    "post P (Envelope (name (failed_topic cfg)) (Message content)) (dead_letter_key d) = None"
  then show "handle_request KafkaLifecycleRequestQueueHandler cfg P (PDict d) w =
      (Inr (PBool False), PDict d,
       w\<lparr>logged := logged w @
            [Log WARNING (missing_warning ''Lifecycle'' f)
               [lookup d ''partition'', lookup d ''offset'']],
         posted := posted w @ [dead_letter cfg content d]\<rparr>)"
    by (simp add: lifecycle_missing)
qed

lemma demo_uuid4_inj: "inj (uuid4 (demo_ports payload outcome))"
proof (rule injI)
  fix i j :: nat
  assume "uuid4 (demo_ports payload outcome) i = uuid4 (demo_ports payload outcome) j"
  then have "length (replicate (Suc i) CHR ''u'') = length (replicate (Suc j) CHR ''u'')"
    by (simp add: demo_ports_def)
  then show "i = j"
    by simp
qed

theorem lifecycle_handle_request_builds_tree_witness:
  "built (snd (snd (handle_request KafkaLifecycleRequestQueueHandler demo_config
      (demo_ports PNone (Inr (PBool True))) (PDict demo_lifecycle) world1))) =
      [(''u'', PStr ''older''), (''uu'', PStr ''archive'')]
   \<and> delegated (snd (snd (handle_request KafkaLifecycleRequestQueueHandler demo_config
      (demo_ports PNone (Inr (PBool True))) (PDict demo_lifecycle) world1))) =
      [PDict (demo_lifecycle @ [(''lifecycle_path'', PStr ''/scripts/uu'')])]
   \<and> ''uu'' \<notin> fst ` set (built world1)
   \<and> handle_request KafkaLifecycleRequestQueueHandler demo_config
      (demo_ports PNone (Inr (PBool True))) (PDict demo_no_scripts) world1 =
      (Inr (PBool False), PDict demo_no_scripts,
       world1\<lparr>logged :=
           [Log WARNING
              ''Lifecycle request for partition {0} offset {1} is missing lifecycle_scripts. This request has been discarded''
              [PNone, PNone]],
         posted :=
           [(Envelope (Some ''requests_failed'')
               (Message ''request_id;lifecycle_name;system_properties;properties;deployment_location;''),
             Some (PStr ''r4''))]\<rparr>)"
proof -
  let ?P = "demo_ports PNone (Inr (PBool True))"
  have f: "first_missing lifecycle_fields demo_lifecycle = None"
    by (simp add: lifecycle_fields_def absent_def demo_lifecycle_def)
  have s: "map_of demo_lifecycle ''lifecycle_scripts'' = Some (PStr ''archive'')"
    by (simp add: demo_lifecycle_def)
  have u: "uuid4 ?P (uuid_count world1) = ''uu''"
    by (simp add: demo_ports_def world1_def world0_def)
  have b: "build_tree ?P (uuid4 ?P (uuid_count world1)) (PStr ''archive'') =
      Inr (PStr ''/scripts/uu'')"
    by (simp add: u) (simp add: demo_ports_def)
  have n: "normalises ?P demo_lifecycle (PDict []) (PDict [])"
    by (simp add: normalises_def demo_ports_def demo_lifecycle_def)
  have same: "normalised (PDict []) (PDict [])
      (AList.update ''lifecycle_path'' (PStr ''/scripts/uu'') demo_lifecycle) =
      demo_lifecycle @ [(''lifecycle_path'', PStr ''/scripts/uu'')]"
    by (simp add: normalised_def demo_lifecycle_def)
  have "uuid4 ?P 0 = ''u''"
    by (simp add: demo_ports_def)
  then have e: "\<forall>x \<in> set (built world1). \<exists>i < uuid_count world1. fst x = uuid4 ?P i"
    by (simp add: world1_def world0_def)
  have g: "first_missing lifecycle_fields demo_no_scripts = Some ''lifecycle_scripts''"
    by (simp add: lifecycle_fields_def absent_def demo_no_scripts_def)
  have j: "json_get ?P (PDict demo_no_scripts) =
      Inr ''request_id;lifecycle_name;system_properties;properties;deployment_location;''"
    by (simp add: demo_ports_def demo_keys_def demo_no_scripts_def)
  have q: "post ?P env (dead_letter_key demo_no_scripts) = None" for env
    by (simp add: demo_ports_def)
  from lifecycle_handle_request_builds_tree
      [of demo_lifecycle "PStr ''archive''" ?P world1 "PStr ''/scripts/uu''" "PDict []" "PDict []"
          demo_config, THEN conjunct1, rule_format, OF conjI [OF f conjI [OF s conjI [OF b n]]]]
    demo_uuid4_inj [of PNone "Inr (PBool True)"] e
  have first: "built (snd (snd (handle_request KafkaLifecycleRequestQueueHandler demo_config ?P
        (PDict demo_lifecycle) world1))) = [(''u'', PStr ''older''), (''uu'', PStr ''archive'')]
     \<and> delegated (snd (snd (handle_request KafkaLifecycleRequestQueueHandler demo_config ?P
        (PDict demo_lifecycle) world1))) =
        [PDict (demo_lifecycle @ [(''lifecycle_path'', PStr ''/scripts/uu'')])]
     \<and> ''uu'' \<notin> fst ` set (built world1)"
    by (simp add: u same) (simp add: world1_def world0_def)
  from lifecycle_handle_request_builds_tree
      [where d = demo_no_scripts and f = "''lifecycle_scripts''" and cfg = demo_config
         and P = "demo_ports PNone (Inr (PBool True))" and w = world1,
       THEN conjunct2, rule_format, OF conjI [OF g conjI [OF j q]]]
  have second: "handle_request KafkaLifecycleRequestQueueHandler demo_config ?P
      (PDict demo_no_scripts) world1 =
      (Inr (PBool False), PDict demo_no_scripts,
       world1\<lparr>logged :=
           [Log WARNING
              ''Lifecycle request for partition {0} offset {1} is missing lifecycle_scripts. This request has been discarded''
              [PNone, PNone]],
         posted :=
           [(Envelope (Some ''requests_failed'')
               (Message ''request_id;lifecycle_name;system_properties;properties;deployment_location;''),
             Some (PStr ''r4''))]\<rparr>)"
    by (simp add: missing_warning_def lookup_def dead_letter_def dead_letter_key_def absent_def
          demo_no_scripts_def demo_config_def world1_def world0_def)
  from first second show ?thesis
    by simp
qed

section \<open>Construction\<close>

text \<open>
  C9, as the code has it. Constructing a consumer factory raises \<open>ValueError\<close> exactly
  when the connection address, the topic name or the group id is \<open>None\<close> or empty.
  Constructing the service raises \<open>ValueError\<close> exactly when one of its seven keyword
  arguments is not passed; what is passed is not inspected, be it \<open>None\<close> or empty.
\<close>

theorem construction_raises_ValueError:
  "(raises_ValueError (KafkaConsumerFactory_init rqc mc) \<longleftrightarrow>
      blank (connection_address mc) \<or> blank (name (topic rqc)) \<or> blank (group_id rqc))
   \<and>
   (raises_ValueError (KafkaRequestQueueService_init kwargs) \<longleftrightarrow>
      (\<exists>k \<in> set service_arguments. map_of kwargs k = None))"
proof
  show "raises_ValueError (KafkaConsumerFactory_init rqc mc) \<longleftrightarrow>
      blank (connection_address mc) \<or> blank (name (topic rqc)) \<or> blank (group_id rqc)"
    by (simp add: KafkaConsumerFactory_init_def raises_ValueError_def blank_def)
next
  have "\<not> raises_ValueError
      (case get_connection_address a of
         Inl e \<Rightarrow> Inl e
       | Inr address \<Rightarrow>
           (case get_request_queue b of
              Inl e \<Rightarrow> Inl e
            | Inr iq \<Rightarrow> (case get_request_queue c of Inl e \<Rightarrow> Inl e | Inr lq \<Rightarrow> Inr (g address iq lq))))"
    for a b c and g :: "string option \<Rightarrow> request_queue_config \<Rightarrow> request_queue_config \<Rightarrow> KafkaRequestQueueService"
    by (cases a; cases b; cases c) (simp_all add: raises_ValueError_def)
  then show "raises_ValueError (KafkaRequestQueueService_init kwargs) \<longleftrightarrow>
      (\<exists>k \<in> set service_arguments. map_of kwargs k = None)"
    unfolding KafkaRequestQueueService_init_def service_arguments_def
    by (simp add: raises_ValueError_def)
qed

theorem construction_raises_ValueError_witness:
  "raises_ValueError (KafkaConsumerFactory_init demo_config \<lparr>connection_address = Some ''''\<rparr>)
   \<and> \<not> raises_ValueError (KafkaConsumerFactory_init demo_config demo_messaging)
   \<and> raises_ValueError
       (KafkaRequestQueueService_init [(''messaging_config'', KMessagingConfig demo_messaging)])
   \<and> \<not> raises_ValueError (KafkaRequestQueueService_init demo_kwargs)"
  using construction_raises_ValueError
      [of demo_config "\<lparr>connection_address = Some ''''\<rparr>"
          "[(''messaging_config'', KMessagingConfig demo_messaging)]"]
    construction_raises_ValueError [of demo_config demo_messaging demo_kwargs]
  by (simp add: blank_def demo_config_def demo_messaging_def demo_kwargs_def
        service_arguments_def)

text \<open>
  The service is constructed from a messaging configuration with an empty connection
  address and with \<open>None\<close> for the postal service, the script file manager and both
  consumer factories.
\<close>

theorem service_accepts_empty_values:
  "KafkaRequestQueueService_init demo_kwargs =
     Inr \<lparr>script_file_manager = KNone,
          service_bootstrap_servers = Some '''',
          infrastructure_request_queue_config = demo_config,
          lifecycle_request_queue_config = demo_config,
          postal_service = KNone,
          infrastructure_consumer_factory = KNone,
          lifecycle_consumer_factory = KNone\<rparr>"
  by (simp add: KafkaRequestQueueService_init_def demo_kwargs_def kwargs_get_def)

end
